theory Spec2Isabelle
  imports Complex_Main "HOL-Library.Word"
begin

unbundle bit_operations_syntax

section \<open>The render call of html2canvas (src/index.ts)\<close>

text \<open>
  The development embeds \<^verbatim>\<open>renderElement\<close> of \<^verbatim>\<open>src/index.ts\<close>. The function is one
  straight sequence of calls into collaborators (logger, resource cache, document cloner,
  fast-mode cloner, iframe storage, renderers). The process-wide registries it writes to
  are fields of an explicit \<open>World\<close>; what the collaborators and the browser answer is
  read from an environment record \<open>Env\<close>; every \<^verbatim>\<open>throw\<close> and rejection is a value
  of type \<open>Error\<close>; the order of the calls is kept in a list of events.
\<close>

subsection \<open>JavaScript values and option objects\<close>

text \<open>
  A value of a property typed \<^verbatim>\<open>T | null | undefined\<close>. A property of the caller's
  \<^verbatim>\<open>Partial<Options>\<close> object is a \<open>'a js option\<close>: \<open>None\<close> when the object has no
  such own property, \<open>Some JUndefined\<close> when it is there with the value
  \<^verbatim>\<open>undefined\<close>. The object spread \<^verbatim>\<open>{...defaults, ...opts}\<close> copies every own
  property of \<^verbatim>\<open>opts\<close>, also one whose value is \<^verbatim>\<open>undefined\<close>.
\<close>

datatype 'a js = JUndefined | JNull | JVal 'a

definition spread :: "'a js \<Rightarrow> 'a js option \<Rightarrow> 'a js" where
  "spread d p = (case p of None \<Rightarrow> d | Some v \<Rightarrow> v)"

text \<open>Reading a property: \<^verbatim>\<open>opts.f\<close> is \<^verbatim>\<open>undefined\<close> when the property is absent.\<close>

definition prop_get :: "'a js option \<Rightarrow> 'a js" where
  "prop_get p = spread JUndefined p"

text \<open>Truthiness, as \<^verbatim>\<open>&&\<close>, \<^verbatim>\<open>!!\<close>, \<^verbatim>\<open>? :\<close> and \<^verbatim>\<open>if\<close> test it.\<close>

fun truthy_string :: "string js \<Rightarrow> bool" where
  "truthy_string (JVal s) = (s \<noteq> [])"
| "truthy_string JNull = False"
| "truthy_string JUndefined = False"

fun truthy_bool :: "bool js \<Rightarrow> bool" where
  "truthy_bool (JVal b) = b"
| "truthy_bool JNull = False"
| "truthy_bool JUndefined = False"

fun truthy_object :: "'a js \<Rightarrow> bool" where
  "truthy_object (JVal r) = True"
| "truthy_object JNull = False"
| "truthy_object JUndefined = False"

fun string_of :: "string js \<Rightarrow> string" where
  "string_of (JVal s) = s"
| "string_of JNull = []"
| "string_of JUndefined = []"

subsection \<open>Data\<close>

text \<open>
  A colour is the packed 32-bit RGBA number of the colour module (\<^verbatim>\<open>0xffffffff\<close> at line
  148 is opaque white). Other numbers are reals, \<^verbatim>\<open>Math.ceil\<close> is the ceiling; NaN and
  the infinities are left out. DOM nodes, windows and canvases are references, compared
  by identity.
\<close>

type_synonym Color = "32 word"
type_synonym elem = nat
type_synonym iframe = nat
type_synonym win = nat
type_synonym Canvas = nat

record ResourceOptions =
  allowTaint :: "bool js"
  imageTimeout :: "real js"
  proxy :: "string js"
  useCORS :: "bool js"

text \<open>
  A resource cache handle: the one \<^verbatim>\<open>CacheStorage.create\<close> makes for a run identity,
  or one the caller passed in \<^verbatim>\<open>opts.cache\<close>.
\<close>

datatype Cache = InstanceCache string ResourceOptions | CallerCache nat

text \<open>
  The caller's \<^verbatim>\<open>Partial<Options>\<close> (lines 13-23). The callbacks \<^verbatim>\<open>onclone\<close> and
  \<^verbatim>\<open>ignoreElements\<close> are only handed to the document cloner, whose answers are part of
  the environment, and have no field here. The fields carry the prefix \<open>o_\<close>.
\<close>

record Options =
  o_backgroundColor :: "string js option"
  o_cache :: "Cache js option"
  o_logging :: "bool js option"
  o_removeContainer :: "bool js option"
  o_foreignObjectRendering :: "bool js option"
  o_scale :: "real js option"
  o_windowWidth :: "real js option"
  o_windowHeight :: "real js option"
  o_scrollX :: "real js option"
  o_scrollY :: "real js option"
  o_x :: "real js option"
  o_y :: "real js option"
  o_width :: "real js option"
  o_height :: "real js option"
  o_renderName :: "string js option"
  o_replaceSelector :: "string js option"
  o_canvas :: "Canvas js option"
  o_allowTaint :: "bool js option"
  o_imageTimeout :: "real js option"
  o_proxy :: "string js option"
  o_useCORS :: "bool js option"

text \<open>The merged \<^verbatim>\<open>options\<close> object of line 84 (prefix \<open>m_\<close>).\<close>

record MergedOptions =
  m_backgroundColor :: "string js"
  m_cache :: "Cache js"
  m_logging :: "bool js"
  m_removeContainer :: "bool js"
  m_foreignObjectRendering :: "bool js"
  m_scale :: "real js"
  m_windowWidth :: "real js"
  m_windowHeight :: "real js"
  m_scrollX :: "real js"
  m_scrollY :: "real js"
  m_x :: "real js"
  m_y :: "real js"
  m_width :: "real js"
  m_height :: "real js"
  m_renderName :: "string js"
  m_replaceSelector :: "string js"
  m_canvas :: "Canvas js"

text \<open>The \<^verbatim>\<open>renderOptions\<close> object of lines 159-173 (prefix \<open>r_\<close>).\<close>

record RenderOptions =
  r_id :: string
  r_cache :: "Cache js"
  r_canvas :: "Canvas js"
  r_backgroundColor :: Color
  r_scale :: "real js"
  r_x :: "real js"
  r_y :: "real js"
  r_scrollX :: "real js"
  r_scrollY :: "real js"
  r_width :: "real js"
  r_height :: "real js"
  r_windowWidth :: "real js"
  r_windowHeight :: "real js"

record Bounds =
  b_left :: real
  b_top :: real
  b_width :: real
  b_height :: real

text \<open>\<^verbatim>\<open>new Bounds(scrollX, scrollY, windowWidth, windowHeight)\<close> of line 86.\<close>

record WindowBounds =
  wb_left :: "real js"
  wb_top :: "real js"
  wb_width :: "real js"
  wb_height :: "real js"

record Window =
  devicePixelRatio :: real
  innerWidth :: real
  innerHeight :: real
  pageXOffset :: real
  pageYOffset :: real

record Document =
  defaultView :: "Window option"
  documentElement :: "elem option"
  body :: "elem option"

text \<open>An element: its identity (what \<^verbatim>\<open>===\<close> compares) and its owner document.\<close>

record Element =
  node :: elem
  ownerDocument :: "Document option"

text \<open>
  An iframe element as the call sees it: \<^verbatim>\<open>contentWindow\<close> (null when unreachable)
  and whether it still has a parent node.
\<close>

record Frame =
  contentWindow :: "win option"
  attached :: bool

datatype Error =
    NotAttachedToDocument
  | NotAttachedToWindow
  | FastCloneError
  | UnableToFindElement
  | Rejected string

text \<open>
  \<open>NotAttachedToDocument\<close> is the \<^verbatim>\<open>Error\<close> of line 41, \<open>NotAttachedToWindow\<close> that of
  line 47, \<open>FastCloneError\<close> that of line 115, \<open>UnableToFindElement\<close> the rejection of
  line 135; \<open>Rejected\<close> is the rejection of an awaited collaborator promise (lines 112,
  124, 131, 180, 196), which the function does not catch.
\<close>

text \<open>
  Modelled from the spec: the fast-duplication collaborator (core/fast-mode-cloner is not
  among the sources), \<^verbatim>\<open>attemptFastClone() -> asynchronous {clonedElement} |
  failure-sentinel\<close>. \<open>FastCloneFalsy\<close> is the failure sentinel, the falsy value that
  line 114 tests.
\<close>

datatype FastCloneOutcome = FastCloneRejected string | FastCloneFalsy | FastCloneResult elem

datatype Event =
    CacheCreate string
  | LoggerCreate string
  | LogDebug string string
  | LogError string string
  | GetIframe string
  | FastClone iframe
  | CloneDocument
  | ToIFrame WindowBounds
  | RenderForeignObject RenderOptions elem
  | CacheAttach "Cache js"
  | ParseTree elem
  | CacheDetach
  | RenderCanvas RenderOptions Color
  | DestroyFrame iframe
  | SaveIframe string iframe
  | LoggerDestroy string
  | CacheDestroy string

text \<open>
  The state outside the call: the logger registry (run identity to its enabled flag), the
  resource-cache registry, the cache currently attached, the named-frame cache
  (\<^verbatim>\<open>IframeStorage\<close>, render name to iframe), the iframes themselves, and the calls made
  so far, oldest first.
\<close>

record World =
  loggers :: "string \<rightharpoonup> bool js"
  caches :: "string \<rightharpoonup> Cache"
  currentCache :: "Cache js"
  iframeStorage :: "string \<rightharpoonup> iframe"
  frames :: "iframe \<Rightarrow> Frame"
  events :: "Event list"

text \<open>
  What the browser and the collaborators answer during one call. \<open>instanceName\<close> is the
  value of \<^verbatim>\<open>(Math.round(Math.random() * 1000) + Date.now()).toString(16)\<close>;
  \<open>computedBackgroundColor e\<close> is \<^verbatim>\<open>getComputedStyle(e).backgroundColor\<close>;
  \<open>parseColor\<close> is line 25; \<open>TRANSPARENT\<close> is \<^verbatim>\<open>COLORS.TRANSPARENT\<close>;
  \<open>clonedReferenceElement\<close> is the field of that name of the document cloner after
  \<^verbatim>\<open>cloneDocument()\<close>; \<open>toIFrame\<close> answers with a rejection or with the new iframe and
  its state; \<open>parseTree\<close> answers with \<^verbatim>\<open>root.styles.backgroundColor\<close>, the one field of
  the parsed tree that the function reads; the two renderers answer with a rejection or a
  canvas.
\<close>

record Env =
  instanceName :: string
  isBodyElement :: "Element \<Rightarrow> bool"
  isHTMLElement :: "Element \<Rightarrow> bool"
  parseDocumentSize :: "Document \<Rightarrow> Bounds"
  parseBounds :: "Element \<Rightarrow> Bounds"
  computedBackgroundColor :: "elem \<Rightarrow> string"
  parseColor :: "string \<Rightarrow> Color"
  TRANSPARENT :: Color
  isTransparent :: "Color \<Rightarrow> bool"
  fastClone :: "elem \<Rightarrow> win \<Rightarrow> string \<Rightarrow> FastCloneOutcome"
  clonedReferenceElement :: "elem option"
  toIFrame :: "WindowBounds \<Rightarrow> string + iframe \<times> Frame"
  parseTree :: "elem \<Rightarrow> Color"
  foreignObjectRender :: "RenderOptions \<Rightarrow> elem \<Rightarrow> string + Canvas"
  canvasRender :: "RenderOptions \<Rightarrow> Color \<Rightarrow> string + Canvas"

subsection \<open>The registries\<close>

definition emit :: "Event \<Rightarrow> World \<Rightarrow> World" where
  "emit e w = w\<lparr>events := events w @ [e]\<rparr>"

text \<open>The events of one call: those added between the world before and the world after.\<close>

definition callTrace :: "World \<Rightarrow> World \<Rightarrow> Event list" where
  "callTrace w w' = drop (length (events w)) (events w')"

text \<open>
  Modelled from the spec: the logging sink (core/logger is not among the sources),
  \<^verbatim>\<open>create({instanceId, enabled})\<close>, \<^verbatim>\<open>get(instanceId) -> {debug(msg), error(msg)}\<close>,
  \<^verbatim>\<open>destroy(instanceId)\<close>: a registry keyed by the run identity.
\<close>

definition Logger_create :: "string \<Rightarrow> bool js \<Rightarrow> World \<Rightarrow> World" where
  "Logger_create ident enabled w = emit (LoggerCreate ident) (w\<lparr>loggers := (loggers w)(ident \<mapsto> enabled)\<rparr>)"

definition Logger_debug :: "string \<Rightarrow> string \<Rightarrow> World \<Rightarrow> World" where
  "Logger_debug ident msg w = emit (LogDebug ident msg) w"

definition Logger_error :: "string \<Rightarrow> string \<Rightarrow> World \<Rightarrow> World" where
  "Logger_error ident msg w = emit (LogError ident msg) w"

definition Logger_destroy :: "string \<Rightarrow> World \<Rightarrow> World" where
  "Logger_destroy ident w = emit (LoggerDestroy ident) (w\<lparr>loggers := (loggers w)(ident := None)\<rparr>)"

text \<open>
  Modelled from the spec: the resource cache (core/cache-storage is not among the
  sources), \<^verbatim>\<open>create(instanceId, ResourceOptions) -> CacheHandle\<close>, \<^verbatim>\<open>attach(handle)\<close>,
  \<^verbatim>\<open>detach()\<close>, \<^verbatim>\<open>destroy(instanceId)\<close>: a registry keyed by the run identity, and
  the handle currently attached.
\<close>

definition CacheStorage_create :: "string \<Rightarrow> ResourceOptions \<Rightarrow> World \<Rightarrow> Cache \<times> World" where
  "CacheStorage_create ident ro w =
     (InstanceCache ident ro,
      emit (CacheCreate ident) (w\<lparr>caches := (caches w)(ident \<mapsto> InstanceCache ident ro)\<rparr>))"

definition CacheStorage_attachInstance :: "Cache js \<Rightarrow> World \<Rightarrow> World" where
  "CacheStorage_attachInstance c w = emit (CacheAttach c) (w\<lparr>currentCache := c\<rparr>)"

definition CacheStorage_detachInstance :: "World \<Rightarrow> World" where
  "CacheStorage_detachInstance w = emit CacheDetach (w\<lparr>currentCache := JNull\<rparr>)"

definition CacheStorage_destroy :: "string \<Rightarrow> World \<Rightarrow> World" where
  "CacheStorage_destroy ident w = emit (CacheDestroy ident) (w\<lparr>caches := (caches w)(ident := None)\<rparr>)"

text \<open>
  Modelled from the spec: the named-frame cache (core/iframe-storage is not among the
  sources), \<^verbatim>\<open>lookup(name) -> FrameHandle | absent\<close>, \<^verbatim>\<open>store(name, handle) -> void\<close>.
\<close>

definition IframeStorage_getIframe :: "string \<Rightarrow> World \<Rightarrow> iframe option \<times> World" where
  "IframeStorage_getIframe name w = (iframeStorage w name, emit (GetIframe name) w)"

definition IframeStorage_saveIframe :: "string \<Rightarrow> iframe \<Rightarrow> World \<Rightarrow> World" where
  "IframeStorage_saveIframe name f w =
     emit (SaveIframe name f) (w\<lparr>iframeStorage := (iframeStorage w)(name \<mapsto> f)\<rparr>)"

text \<open>
  Modelled from the spec: \<^verbatim>\<open>destroyFrame(handle) -> bool\<close> of the duplication
  collaborator (dom/document-cloner is not among the sources): an attached frame is
  detached and the answer is true; destruction fails, with the answer false, when the
  frame is no longer attached.
\<close>

definition DocumentCloner_destroy :: "iframe \<Rightarrow> World \<Rightarrow> bool \<times> World" where
  "DocumentCloner_destroy c w =
     (if attached (frames w c)
      then (True, emit (DestroyFrame c) (w\<lparr>frames := (frames w)(c := (frames w c)\<lparr>attached := False\<rparr>)\<rparr>))
      else (False, emit (DestroyFrame c) w))"

subsection \<open>The stages of \<^verbatim>\<open>renderElement\<close>\<close>

text \<open>Lines 52-53: the capture rectangle.\<close>

definition captureBounds :: "Env \<Rightarrow> Element \<Rightarrow> Document \<Rightarrow> Bounds" where
  "captureBounds env element doc =
     (if isBodyElement env element \<or> isHTMLElement env element
      then parseDocumentSize env doc
      else parseBounds env element)"

text \<open>
  Lines 55-62: \<^verbatim>\<open>{...defaultResourceOptions, ...opts}\<close>. (The object also carries every
  other property of \<^verbatim>\<open>opts\<close>; line 84 spreads \<^verbatim>\<open>opts\<close> over it again, so they change
  nothing there.)
\<close>

definition mkResourceOptions :: "Options \<Rightarrow> ResourceOptions" where
  "mkResourceOptions opts =
     \<lparr>allowTaint = spread (JVal False) (o_allowTaint opts),
      imageTimeout = spread (JVal 15000) (o_imageTimeout opts),
      proxy = spread JUndefined (o_proxy opts),
      useCORS = spread (JVal False) (o_useCORS opts)\<rparr>"

text \<open>Line 66: \<^verbatim>\<open>opts.cache ? opts.cache : CacheStorage.create(instanceName, resourceOptions)\<close>.\<close>

definition defaultCache :: "string \<Rightarrow> ResourceOptions \<Rightarrow> Options \<Rightarrow> World \<Rightarrow> Cache js \<times> World" where
  "defaultCache ident ro opts w =
     (if truthy_object (prop_get (o_cache opts))
      then (prop_get (o_cache opts), w)
      else (case CacheStorage_create ident ro w of (c, w') \<Rightarrow> (JVal c, w')))"

text \<open>Lines 64-84: \<^verbatim>\<open>{...defaultOptions, ...resourceOptions, ...opts}\<close>.\<close>

definition mergeOptions :: "Window \<Rightarrow> Bounds \<Rightarrow> Cache js \<Rightarrow> Options \<Rightarrow> MergedOptions" where
  "mergeOptions view b dc opts =
     \<lparr>m_backgroundColor = spread (JVal ''#ffffff'') (o_backgroundColor opts),
      m_cache = spread dc (o_cache opts),
      m_logging = spread (JVal True) (o_logging opts),
      m_removeContainer = spread (JVal True) (o_removeContainer opts),
      m_foreignObjectRendering = spread (JVal False) (o_foreignObjectRendering opts),
      m_scale = spread (JVal (if devicePixelRatio view \<noteq> 0 then devicePixelRatio view else 1)) (o_scale opts),
      m_windowWidth = spread (JVal (innerWidth view)) (o_windowWidth opts),
      m_windowHeight = spread (JVal (innerHeight view)) (o_windowHeight opts),
      m_scrollX = spread (JVal (pageXOffset view)) (o_scrollX opts),
      m_scrollY = spread (JVal (pageYOffset view)) (o_scrollY opts),
      m_x = spread (JVal (b_left b)) (o_x opts),
      m_y = spread (JVal (b_top b)) (o_y opts),
      m_width = spread (JVal (of_int \<lceil>b_width b\<rceil>)) (o_width opts),
      m_height = spread (JVal (of_int \<lceil>b_height b\<rceil>)) (o_height opts),
      m_renderName = spread JNull (o_renderName opts),
      m_replaceSelector = spread JNull (o_replaceSelector opts),
      m_canvas = spread JUndefined (o_canvas opts)\<rparr>"

text \<open>Line 86.\<close>

definition mkWindowBounds :: "MergedOptions \<Rightarrow> WindowBounds" where
  "mkWindowBounds options =
     \<lparr>wb_left = m_scrollX options, wb_top = m_scrollY options,
      wb_width = m_windowWidth options, wb_height = m_windowHeight options\<rparr>"

text \<open>
  Lines 120-124 and 127-131, the full duplication: \<^verbatim>\<open>cloneDocument()\<close>, the cloned
  reference element, then the awaited \<^verbatim>\<open>toIFrame\<close>, which makes a new iframe.
\<close>

definition fullClone :: "Env \<Rightarrow> WindowBounds \<Rightarrow> World \<Rightarrow> (Error + elem option \<times> iframe) \<times> World" where
  "fullClone env windowBounds w =
     (let w1 = emit CloneDocument w;
          clonedElement = clonedReferenceElement env;
          w2 = emit (ToIFrame windowBounds) w1
      in case toIFrame env windowBounds of
           Inl r \<Rightarrow> (Inl (Rejected r), w2)
         | Inr (f, fr) \<Rightarrow> (Inr (clonedElement, f), w2\<lparr>frames := (frames w2)(f := fr)\<rparr>))"

text \<open>
  Lines 102-132. The result is \<^verbatim>\<open>clonedElement\<close> (\<open>None\<close> for \<^verbatim>\<open>undefined\<close>) and
  \<^verbatim>\<open>container\<close>.
\<close>

definition duplicate ::
  "Env \<Rightarrow> Element \<Rightarrow> MergedOptions \<Rightarrow> WindowBounds \<Rightarrow> World \<Rightarrow> (Error + elem option \<times> iframe) \<times> World" where
  "duplicate env element options windowBounds w =
     (if truthy_string (m_replaceSelector options) \<and> truthy_string (m_renderName options)
      then
        (case IframeStorage_getIframe (string_of (m_renderName options)) w of
           (cachedIframe, w1) \<Rightarrow>
             (case cachedIframe of
                None \<Rightarrow> fullClone env windowBounds w1
              | Some container \<Rightarrow>
                  (case contentWindow (frames w1 container) of
                     None \<Rightarrow> fullClone env windowBounds w1
                   | Some containerWindow \<Rightarrow>
                       (let w2 = emit (FastClone container) w1
                        in case fastClone env (node element) containerWindow
                                  (string_of (m_replaceSelector options)) of
                             FastCloneRejected r \<Rightarrow> (Inl (Rejected r), w2)
                           | FastCloneFalsy \<Rightarrow> (Inl FastCloneError, w2)
                           | FastCloneResult clonedElement \<Rightarrow> (Inr (Some clonedElement, container), w2)))))
      else fullClone env windowBounds w)"

text \<open>Lines 139-141 and 142-144.\<close>

definition documentBackgroundColor :: "Env \<Rightarrow> Document \<Rightarrow> Color" where
  "documentBackgroundColor env doc =
     (case documentElement doc of
        Some htmlEl \<Rightarrow> parseColor env (computedBackgroundColor env htmlEl)
      | None \<Rightarrow> TRANSPARENT env)"

definition bodyBackgroundColor :: "Env \<Rightarrow> Document \<Rightarrow> Color" where
  "bodyBackgroundColor env doc =
     (case body doc of
        Some bodyEl \<Rightarrow> parseColor env (computedBackgroundColor env bodyEl)
      | None \<Rightarrow> TRANSPARENT env)"

text \<open>Lines 146-148, on \<^verbatim>\<open>opts.backgroundColor\<close> (the caller's object, not the merged one).\<close>

definition defaultBackgroundColor :: "Env \<Rightarrow> Options \<Rightarrow> Color" where
  "defaultBackgroundColor env opts =
     (case prop_get (o_backgroundColor opts) of
        JVal bgColor \<Rightarrow> parseColor env bgColor
      | JNull \<Rightarrow> TRANSPARENT env
      | JUndefined \<Rightarrow> 0xffffffff)"

text \<open>Lines 150-157.\<close>

definition backgroundColor :: "Env \<Rightarrow> Element \<Rightarrow> Document \<Rightarrow> Options \<Rightarrow> Color" where
  "backgroundColor env element doc opts =
     (if Some (node element) = documentElement doc
      then (if isTransparent env (documentBackgroundColor env doc)
            then (if isTransparent env (bodyBackgroundColor env doc)
                  then defaultBackgroundColor env opts
                  else bodyBackgroundColor env doc)
            else documentBackgroundColor env doc)
      else defaultBackgroundColor env opts)"

text \<open>Lines 159-173.\<close>

definition mkRenderOptions :: "string \<Rightarrow> MergedOptions \<Rightarrow> Color \<Rightarrow> RenderOptions" where
  "mkRenderOptions ident options bg =
     \<lparr>r_id = ident,
      r_cache = m_cache options,
      r_canvas = m_canvas options,
      r_backgroundColor = bg,
      r_scale = m_scale options,
      r_x = m_x options,
      r_y = m_y options,
      r_scrollX = m_scrollX options,
      r_scrollY = m_scrollY options,
      r_width = m_width options,
      r_height = m_height options,
      r_windowWidth = m_windowWidth options,
      r_windowHeight = m_windowHeight options\<rparr>"

text \<open>Lines 175-197: one of the two renderers.\<close>

definition dispatchRender ::
  "Env \<Rightarrow> string \<Rightarrow> MergedOptions \<Rightarrow> RenderOptions \<Rightarrow> elem \<Rightarrow> World \<Rightarrow> (Error + Canvas) \<times> World" where
  "dispatchRender env ident options renderOptions clonedElement w =
     (if truthy_bool (m_foreignObjectRendering options)
      then
        (let w1 = Logger_debug ident ''Document cloned, using foreign object rendering'' w;
             w2 = emit (RenderForeignObject renderOptions clonedElement) w1
         in case foreignObjectRender env renderOptions clonedElement of
              Inl r \<Rightarrow> (Inl (Rejected r), w2)
            | Inr canvas \<Rightarrow> (Inr canvas, w2))
      else
        (let w1 = Logger_debug ident ''Document cloned, using computed rendering'' w;
             w2 = CacheStorage_attachInstance (m_cache options) w1;
             w3 = Logger_debug ident ''Starting DOM parsing'' w2;
             w4 = emit (ParseTree clonedElement) w3;
             rootBackground = parseTree env clonedElement;
             w5 = CacheStorage_detachInstance w4;
             rootBackground' =
               (if r_backgroundColor renderOptions = rootBackground
                then TRANSPARENT env else rootBackground);
             w6 = Logger_debug ident ''Starting renderer'' w5;
             w7 = emit (RenderCanvas renderOptions rootBackground') w6
         in case canvasRender env renderOptions rootBackground' of
              Inl r \<Rightarrow> (Inl (Rejected r), w7)
            | Inr canvas \<Rightarrow> (Inr canvas, w7)))"

text \<open>Lines 199-203.\<close>

definition removeContainerStep :: "string \<Rightarrow> MergedOptions \<Rightarrow> iframe \<Rightarrow> World \<Rightarrow> World" where
  "removeContainerStep ident options container w =
     (if m_removeContainer options = JVal True
      then
        (case DocumentCloner_destroy container w of
           (destroyed, w1) \<Rightarrow>
             (if \<not> destroyed
              then Logger_error ident ''Cannot detach cloned iframe as it is not in the DOM anymore'' w1
              else w1))
      else w)"

text \<open>Lines 205-208.\<close>

definition saveStep :: "MergedOptions \<Rightarrow> iframe \<Rightarrow> World \<Rightarrow> World" where
  "saveStep options container w =
     (if truthy_string (m_renderName options)
      then IframeStorage_saveIframe (string_of (m_renderName options)) container w
      else w)"

text \<open>Lines 199-212.\<close>

definition teardown :: "string \<Rightarrow> MergedOptions \<Rightarrow> iframe \<Rightarrow> World \<Rightarrow> World" where
  "teardown ident options container w =
     (let w1 = removeContainerStep ident options container w;
          w2 = saveStep options container w1;
          w3 = Logger_debug ident ''Finished rendering'' w2;
          w4 = Logger_destroy ident w3
      in CacheStorage_destroy ident w4)"

text \<open>
  Lines 50-213, once the owner document and its window are there. The constructors of
  lines 90, 110, 179 and 195 only keep their arguments and leave no event; the calls of
  their methods do. The result is the
  settled value of the promise: \<open>Inr\<close> the canvas, or \<open>Inl\<close> the error.
\<close>

definition renderBody ::
  "Env \<Rightarrow> Element \<Rightarrow> Document \<Rightarrow> Window \<Rightarrow> Options \<Rightarrow> World \<Rightarrow> (Error + Canvas) \<times> World" where
  "renderBody env element doc view opts w =
     (let ident = instanceName env;
          bounds = captureBounds env element doc;
          resourceOptions = mkResourceOptions opts
      in case defaultCache ident resourceOptions opts w of
        (dc, w1) \<Rightarrow>
          (let options = mergeOptions view bounds dc opts;
               windowBounds = mkWindowBounds options;
               w2 = Logger_create ident (m_logging options) w1;
               w3 = Logger_debug ident ''Starting document clone'' w2
           in case duplicate env element options windowBounds w3 of
                (Inl err, w4) \<Rightarrow> (Inl err, w4)
              | (Inr (None, container), w4) \<Rightarrow> (Inl UnableToFindElement, w4)
              | (Inr (Some clonedElement, container), w4) \<Rightarrow>
                  (let renderOptions =
                         mkRenderOptions ident options (backgroundColor env element doc opts)
                   in case dispatchRender env ident options renderOptions clonedElement w4 of
                        (Inl err, w5) \<Rightarrow> (Inl err, w5)
                      | (Inr canvas, w5) \<Rightarrow> (Inr canvas, teardown ident options container w5))))"

text \<open>Lines 37-214.\<close>

definition renderElement :: "Env \<Rightarrow> Element \<Rightarrow> Options \<Rightarrow> World \<Rightarrow> (Error + Canvas) \<times> World" where
  "renderElement env element opts w =
     (case ownerDocument element of
        None \<Rightarrow> (Inl NotAttachedToDocument, w)
      | Some doc \<Rightarrow>
          (case defaultView doc of
             None \<Rightarrow> (Inl NotAttachedToWindow, w)
           | Some view \<Rightarrow> renderBody env element doc view opts w))"

text \<open>
  The merged options of a call, and the world at line 89, before the duplication: what
  \<open>renderBody\<close> computes first, named so that statements can refer to them.
\<close>

definition callOptions :: "Env \<Rightarrow> Element \<Rightarrow> Document \<Rightarrow> Window \<Rightarrow> Options \<Rightarrow> MergedOptions" where
  "callOptions env element doc view opts =
     mergeOptions view (captureBounds env element doc)
       (if truthy_object (prop_get (o_cache opts)) then prop_get (o_cache opts)
        else JVal (InstanceCache (instanceName env) (mkResourceOptions opts)))
       opts"

definition started :: "Env \<Rightarrow> Element \<Rightarrow> Document \<Rightarrow> Window \<Rightarrow> Options \<Rightarrow> World \<Rightarrow> World" where
  "started env element doc view opts w =
     Logger_debug (instanceName env) ''Starting document clone''
       (Logger_create (instanceName env) (m_logging (callOptions env element doc view opts))
          (snd (defaultCache (instanceName env) (mkResourceOptions opts) opts w)))"

definition callRenderOptions :: "Env \<Rightarrow> Element \<Rightarrow> Document \<Rightarrow> Window \<Rightarrow> Options \<Rightarrow> RenderOptions" where
  "callRenderOptions env element doc view opts =
     mkRenderOptions (instanceName env) (callOptions env element doc view opts)
       (backgroundColor env element doc opts)"

text \<open>
  The duplication of a call (lines 102-132 run on the merged options in the world of line
  89), and the \<^verbatim>\<open>container\<close> it leaves: the hosting frame of the call, if the
  duplication gets that far.
\<close>

definition duplicated ::
  "Env \<Rightarrow> Element \<Rightarrow> Document \<Rightarrow> Window \<Rightarrow> Options \<Rightarrow> World \<Rightarrow> (Error + elem option \<times> iframe) \<times> World" where
  "duplicated env element doc view opts w =
     duplicate env element (callOptions env element doc view opts)
       (mkWindowBounds (callOptions env element doc view opts))
       (started env element doc view opts w)"

definition containerOf :: "Env \<Rightarrow> Element \<Rightarrow> Document \<Rightarrow> Window \<Rightarrow> Options \<Rightarrow> World \<Rightarrow> iframe option" where
  "containerOf env element doc view opts w =
     (case fst (duplicated env element doc view opts w) of
        Inl err \<Rightarrow> None
      | Inr p \<Rightarrow> Some (snd p))"

subsection \<open>Reading a trace\<close>

text \<open>The fast path was attempted: \<^verbatim>\<open>fastClone.clone()\<close> of line 112 was called.\<close>

fun isFastClone :: "Event \<Rightarrow> bool" where
  "isFastClone (FastClone f) = True"
| "isFastClone e = False"

definition fastPathAttempted :: "Event list \<Rightarrow> bool" where
  "fastPathAttempted tr = list_ex isFastClone tr"

text \<open>
  The full path was taken: \<^verbatim>\<open>cloneDocument()\<close> was called, and \<^verbatim>\<open>toIFrame\<close> right
  after it.
\<close>

fun fullPathTaken :: "Event list \<Rightarrow> bool" where
  "fullPathTaken (CloneDocument # ToIFrame wb # tr) = True"
| "fullPathTaken (e # tr) = fullPathTaken tr"
| "fullPathTaken [] = False"

text \<open>Some step of the full path was performed.\<close>

fun isFullPathStep :: "Event \<Rightarrow> bool" where
  "isFullPathStep CloneDocument = True"
| "isFullPathStep (ToIFrame wb) = True"
| "isFullPathStep e = False"

text \<open>The render options that the renderers were called with, in order.\<close>

fun backendCalls :: "Event list \<Rightarrow> RenderOptions list" where
  "backendCalls (RenderForeignObject ro e # tr) = ro # backendCalls tr"
| "backendCalls (RenderCanvas ro c # tr) = ro # backendCalls tr"
| "backendCalls (e # tr) = backendCalls tr"
| "backendCalls [] = []"

text \<open>The frames whose destruction was requested, and the frames saved, in order.\<close>

fun destroyCalls :: "Event list \<Rightarrow> iframe list" where
  "destroyCalls (DestroyFrame f # tr) = f # destroyCalls tr"
| "destroyCalls (e # tr) = destroyCalls tr"
| "destroyCalls [] = []"

text \<open>The destruction requests and the saves of a trace, and its error-level log entries.\<close>

fun isFrameDisposal :: "Event \<Rightarrow> bool" where
  "isFrameDisposal (DestroyFrame f) = True"
| "isFrameDisposal (SaveIframe n f) = True"
| "isFrameDisposal e = False"

fun isLogError :: "Event \<Rightarrow> bool" where
  "isLogError (LogError i msg) = True"
| "isLogError e = False"

text \<open>What the renderers answered to the renderer calls of a trace.\<close>

fun rendererAnswers :: "Env \<Rightarrow> Event list \<Rightarrow> (string + Canvas) list" where
  "rendererAnswers env (RenderForeignObject ro e # tr) = foreignObjectRender env ro e # rendererAnswers env tr"
| "rendererAnswers env (RenderCanvas ro c # tr) = canvasRender env ro c # rendererAnswers env tr"
| "rendererAnswers env (e # tr) = rendererAnswers env tr"
| "rendererAnswers env [] = []"

text \<open>An option property that was supplied: it is there, and its value is a non-empty string.\<close>

definition supplied :: "string js option \<Rightarrow> bool" where
  "supplied p = (case p of Some (JVal s) \<Rightarrow> s \<noteq> [] | Some JNull \<Rightarrow> False | Some JUndefined \<Rightarrow> False | None \<Rightarrow> False)"

text \<open>
  The decision rule in the spec's words: both options supplied, an entry for the render
  name in the named-frame cache, and the window of that entry's frame not null.
\<close>

definition fastPathQualifies :: "Options \<Rightarrow> World \<Rightarrow> bool" where
  "fastPathQualifies opts w =
     (supplied (o_replaceSelector opts) \<and> supplied (o_renderName opts) \<and>
      (case iframeStorage w (string_of (prop_get (o_renderName opts))) of
         None \<Rightarrow> False
       | Some f \<Rightarrow> contentWindow (frames w f) \<noteq> None))"

subsection \<open>Concrete calls\<close>

definition viewA :: Window where
  "viewA = \<lparr>devicePixelRatio = 2, innerWidth = 1280, innerHeight = 720, pageXOffset = 0, pageYOffset = 40\<rparr>"

definition docA :: Document where
  "docA = \<lparr>defaultView = Some viewA, documentElement = Some 1, body = Some 2\<rparr>"

definition htmlA :: Element where
  "htmlA = \<lparr>node = 1, ownerDocument = Some docA\<rparr>"

definition bodyA :: Element where
  "bodyA = \<lparr>node = 2, ownerDocument = Some docA\<rparr>"

definition divA :: Element where
  "divA = \<lparr>node = 3, ownerDocument = Some docA\<rparr>"

definition detachedA :: Element where
  "detachedA = \<lparr>node = 9, ownerDocument = None\<rparr>"

definition windowlessA :: Element where
  "windowlessA = \<lparr>node = 9, ownerDocument = Some (docA\<lparr>defaultView := None\<rparr>)\<rparr>"

text \<open>
  A page whose root is painted \<^verbatim>\<open>rgb(10, 20, 30)\<close> and whose body is transparent; colours
  are packed RGBA.
\<close>

definition envA :: Env where
  "envA =
     \<lparr>instanceName = ''18c2f0a6b1d'',
      isBodyElement = (\<lambda>e. node e = 2),
      isHTMLElement = (\<lambda>e. node e = 1),
      parseDocumentSize = (\<lambda>d. \<lparr>b_left = 0, b_top = 0, b_width = 1280, b_height = 3000\<rparr>),
      parseBounds = (\<lambda>e. \<lparr>b_left = 8, b_top = 16, b_width = 300.5, b_height = 120\<rparr>),
      computedBackgroundColor = (\<lambda>e. if e = 1 then ''rgb(10, 20, 30)'' else ''rgba(0, 0, 0, 0)''),
      parseColor = (\<lambda>s. if s = ''rgb(10, 20, 30)'' then 0x0a141eff
                        else if s = ''#ffffff'' then 0xffffffff
                        else if s = ''#ff0000'' then 0xff0000ff
                        else if s = ''rgb(200, 200, 200)'' then 0xc8c8c8ff
                        else 0),
      TRANSPARENT = 0,
      isTransparent = (\<lambda>c. c AND 0xff = 0),
      fastClone = (\<lambda>e cw sel. FastCloneResult 103),
      clonedReferenceElement = Some 103,
      toIFrame = (\<lambda>wb. Inr (7, \<lparr>contentWindow = Some 70, attached = True\<rparr>)),
      parseTree = (\<lambda>e. 0xffffffff),
      foreignObjectRender = (\<lambda>ro e. Inr 500),
      canvasRender = (\<lambda>ro c. Inr 501)\<rparr>"

text \<open>The same page with root and body both painted \<^verbatim>\<open>rgb(200, 200, 200)\<close>.\<close>

definition envGrey :: Env where
  "envGrey = envA\<lparr>computedBackgroundColor := (\<lambda>e. ''rgb(200, 200, 200)'')\<rparr>"

text \<open>The same page with a transparent root and a body painted \<^verbatim>\<open>rgb(200, 200, 200)\<close>.\<close>

definition envBody :: Env where
  "envBody = envA\<lparr>computedBackgroundColor :=
     (\<lambda>e. if e = 2 then ''rgb(200, 200, 200)'' else ''rgba(0, 0, 0, 0)'')\<rparr>"

text \<open>The same page with root and body both transparent.\<close>

definition envClear :: Env where
  "envClear = envA\<lparr>computedBackgroundColor := (\<lambda>e. ''rgba(0, 0, 0, 0)'')\<rparr>"

text \<open>The same page with a fast cloner that answers with the failure sentinel.\<close>

definition envFail :: Env where
  "envFail = envA\<lparr>fastClone := (\<lambda>e cw sel. FastCloneFalsy)\<rparr>"

text \<open>The same page where the new iframe has left the DOM by the time of the teardown.\<close>

definition envDetached :: Env where
  "envDetached = envA\<lparr>toIFrame := (\<lambda>wb. Inr (7, \<lparr>contentWindow = Some 70, attached = False\<rparr>))\<rparr>"

definition optsA :: Options where
  "optsA =
     \<lparr>o_backgroundColor = None, o_cache = None, o_logging = None, o_removeContainer = None,
      o_foreignObjectRendering = None, o_scale = None, o_windowWidth = None,
      o_windowHeight = None, o_scrollX = None, o_scrollY = None, o_x = None, o_y = None,
      o_width = None, o_height = None, o_renderName = None, o_replaceSelector = None,
      o_canvas = None, o_allowTaint = None, o_imageTimeout = None, o_proxy = None,
      o_useCORS = None\<rparr>"

text \<open>The options of a fast-mode call.\<close>

definition optsFast :: Options where
  "optsFast = optsA\<lparr>o_renderName := Some (JVal ''panel''), o_replaceSelector := Some (JVal ''#slot'')\<rparr>"

text \<open>A caller's object \<^verbatim>\<open>{removeContainer: undefined}\<close>.\<close>

definition optsUndef :: Options where
  "optsUndef = optsA\<lparr>o_removeContainer := Some JUndefined\<rparr>"

definition worldA :: World where
  "worldA =
     \<lparr>loggers = Map.empty, caches = Map.empty, currentCache = JNull, iframeStorage = Map.empty,
      frames = (\<lambda>f. \<lparr>contentWindow = None, attached = False\<rparr>), events = []\<rparr>"

text \<open>A world in which an earlier call has left a live frame under the name \<^verbatim>\<open>panel\<close>.\<close>

definition worldB :: World where
  "worldB =
     worldA\<lparr>iframeStorage := [''panel'' \<mapsto> 5],
            frames := (\<lambda>f. if f = 5 then \<lparr>contentWindow = Some 50, attached = True\<rparr>
                            else \<lparr>contentWindow = None, attached = False\<rparr>)\<rparr>"


section \<open>Properties\<close>

subsection \<open>What each registry operation does to the world\<close>

lemmas prim_defs = emit_def Logger_create_def Logger_debug_def Logger_error_def Logger_destroy_def
  CacheStorage_create_def CacheStorage_attachInstance_def CacheStorage_detachInstance_def
  CacheStorage_destroy_def IframeStorage_getIframe_def IframeStorage_saveIframe_def
  DocumentCloner_destroy_def

lemma callTrace_append: "events w' = events w @ tr \<Longrightarrow> callTrace w w' = tr"
  by (simp add: callTrace_def)

lemma emit_fields [simp]:
  "events (emit e w) = events w @ [e]"
  "loggers (emit e w) = loggers w"
  "caches (emit e w) = caches w"
  "iframeStorage (emit e w) = iframeStorage w"
  "frames (emit e w) = frames w"
  by (simp_all add: emit_def)

lemma Logger_create_fields [simp]:
  "events (Logger_create i b w) = events w @ [LoggerCreate i]"
  "loggers (Logger_create i b w) = (loggers w)(i \<mapsto> b)"
  "caches (Logger_create i b w) = caches w"
  "iframeStorage (Logger_create i b w) = iframeStorage w"
  "frames (Logger_create i b w) = frames w"
  by (simp_all add: Logger_create_def)

lemma Logger_debug_fields [simp]:
  "events (Logger_debug i m w) = events w @ [LogDebug i m]"
  "loggers (Logger_debug i m w) = loggers w"
  "caches (Logger_debug i m w) = caches w"
  "iframeStorage (Logger_debug i m w) = iframeStorage w"
  "frames (Logger_debug i m w) = frames w"
  by (simp_all add: Logger_debug_def)

lemma Logger_error_fields [simp]:
  "events (Logger_error i m w) = events w @ [LogError i m]"
  "loggers (Logger_error i m w) = loggers w"
  "caches (Logger_error i m w) = caches w"
  "iframeStorage (Logger_error i m w) = iframeStorage w"
  "frames (Logger_error i m w) = frames w"
  by (simp_all add: Logger_error_def)

lemma Logger_destroy_fields [simp]:
  "events (Logger_destroy i w) = events w @ [LoggerDestroy i]"
  "loggers (Logger_destroy i w) = (loggers w)(i := None)"
  "caches (Logger_destroy i w) = caches w"
  "iframeStorage (Logger_destroy i w) = iframeStorage w"
  "frames (Logger_destroy i w) = frames w"
  by (simp_all add: Logger_destroy_def)

lemma CacheStorage_create_fields [simp]:
  "fst (CacheStorage_create i ro w) = InstanceCache i ro"
  "events (snd (CacheStorage_create i ro w)) = events w @ [CacheCreate i]"
  "loggers (snd (CacheStorage_create i ro w)) = loggers w"
  "caches (snd (CacheStorage_create i ro w)) = (caches w)(i \<mapsto> InstanceCache i ro)"
  "iframeStorage (snd (CacheStorage_create i ro w)) = iframeStorage w"
  "frames (snd (CacheStorage_create i ro w)) = frames w"
  by (simp_all add: CacheStorage_create_def)

lemma CacheStorage_attachInstance_fields [simp]:
  "events (CacheStorage_attachInstance c w) = events w @ [CacheAttach c]"
  "loggers (CacheStorage_attachInstance c w) = loggers w"
  "caches (CacheStorage_attachInstance c w) = caches w"
  "iframeStorage (CacheStorage_attachInstance c w) = iframeStorage w"
  "frames (CacheStorage_attachInstance c w) = frames w"
  by (simp_all add: CacheStorage_attachInstance_def)

lemma CacheStorage_detachInstance_fields [simp]:
  "events (CacheStorage_detachInstance w) = events w @ [CacheDetach]"
  "loggers (CacheStorage_detachInstance w) = loggers w"
  "caches (CacheStorage_detachInstance w) = caches w"
  "iframeStorage (CacheStorage_detachInstance w) = iframeStorage w"
  "frames (CacheStorage_detachInstance w) = frames w"
  by (simp_all add: CacheStorage_detachInstance_def)

lemma CacheStorage_destroy_fields [simp]:
  "events (CacheStorage_destroy i w) = events w @ [CacheDestroy i]"
  "loggers (CacheStorage_destroy i w) = loggers w"
  "caches (CacheStorage_destroy i w) = (caches w)(i := None)"
  "iframeStorage (CacheStorage_destroy i w) = iframeStorage w"
  "frames (CacheStorage_destroy i w) = frames w"
  by (simp_all add: CacheStorage_destroy_def)

lemma IframeStorage_getIframe_fields [simp]:
  "fst (IframeStorage_getIframe n w) = iframeStorage w n"
  "events (snd (IframeStorage_getIframe n w)) = events w @ [GetIframe n]"
  "loggers (snd (IframeStorage_getIframe n w)) = loggers w"
  "caches (snd (IframeStorage_getIframe n w)) = caches w"
  "iframeStorage (snd (IframeStorage_getIframe n w)) = iframeStorage w"
  "frames (snd (IframeStorage_getIframe n w)) = frames w"
  by (simp_all add: IframeStorage_getIframe_def)

lemma IframeStorage_saveIframe_fields [simp]:
  "events (IframeStorage_saveIframe n f w) = events w @ [SaveIframe n f]"
  "loggers (IframeStorage_saveIframe n f w) = loggers w"
  "caches (IframeStorage_saveIframe n f w) = caches w"
  "iframeStorage (IframeStorage_saveIframe n f w) = (iframeStorage w)(n \<mapsto> f)"
  "frames (IframeStorage_saveIframe n f w) = frames w"
  by (simp_all add: IframeStorage_saveIframe_def)

lemma DocumentCloner_destroy_fields [simp]:
  "fst (DocumentCloner_destroy c w) = attached (frames w c)"
  "events (snd (DocumentCloner_destroy c w)) = events w @ [DestroyFrame c]"
  "loggers (snd (DocumentCloner_destroy c w)) = loggers w"
  "caches (snd (DocumentCloner_destroy c w)) = caches w"
  "iframeStorage (snd (DocumentCloner_destroy c w)) = iframeStorage w"
  "frames (snd (DocumentCloner_destroy c w)) = (frames w)(c := (frames w c)\<lparr>attached := False\<rparr>)"
  by (auto simp: DocumentCloner_destroy_def)

subsection \<open>What each stage does to the world\<close>

lemma defaultCache_fields [simp]:
  "fst (defaultCache i ro opts w) =
     (if truthy_object (prop_get (o_cache opts)) then prop_get (o_cache opts) else JVal (InstanceCache i ro))"
  "events (snd (defaultCache i ro opts w)) =
     events w @ (if truthy_object (prop_get (o_cache opts)) then [] else [CacheCreate i])"
  "loggers (snd (defaultCache i ro opts w)) = loggers w"
  "caches (snd (defaultCache i ro opts w)) =
     (if truthy_object (prop_get (o_cache opts)) then caches w else (caches w)(i \<mapsto> InstanceCache i ro))"
  "iframeStorage (snd (defaultCache i ro opts w)) = iframeStorage w"
  "frames (snd (defaultCache i ro opts w)) = frames w"
  by (simp_all add: defaultCache_def split_beta)

lemma fullClone_fields [simp]:
  "fst (fullClone env wb w) =
     (case toIFrame env wb of Inl r \<Rightarrow> Inl (Rejected r) | Inr p \<Rightarrow> Inr (clonedReferenceElement env, fst p))"
  "events (snd (fullClone env wb w)) = events w @ [CloneDocument, ToIFrame wb]"
  "loggers (snd (fullClone env wb w)) = loggers w"
  "caches (snd (fullClone env wb w)) = caches w"
  "iframeStorage (snd (fullClone env wb w)) = iframeStorage w"
  "frames (snd (fullClone env wb w)) =
     (case toIFrame env wb of Inl r \<Rightarrow> frames w | Inr p \<Rightarrow> (frames w)(fst p := snd p))"
  by (simp_all add: fullClone_def Let_def split_beta split: sum.splits)

lemma dispatchRender_result:
  "fst (dispatchRender env i options ro ce w) =
     (if truthy_bool (m_foreignObjectRendering options)
      then (case foreignObjectRender env ro ce of Inl r \<Rightarrow> Inl (Rejected r) | Inr canvas \<Rightarrow> Inr canvas)
      else (case canvasRender env ro (if r_backgroundColor ro = parseTree env ce then TRANSPARENT env else parseTree env ce) of
              Inl r \<Rightarrow> Inl (Rejected r) | Inr canvas \<Rightarrow> Inr canvas))"
  by (simp add: dispatchRender_def Let_def split: sum.splits)

lemma dispatchRender_fields [simp]:
  "events (snd (dispatchRender env i options ro ce w)) =
     events w @
     (if truthy_bool (m_foreignObjectRendering options)
      then [LogDebug i ''Document cloned, using foreign object rendering'', RenderForeignObject ro ce]
      else [LogDebug i ''Document cloned, using computed rendering'', CacheAttach (m_cache options),
            LogDebug i ''Starting DOM parsing'', ParseTree ce, CacheDetach, LogDebug i ''Starting renderer'',
            RenderCanvas ro (if r_backgroundColor ro = parseTree env ce then TRANSPARENT env else parseTree env ce)])"
  "loggers (snd (dispatchRender env i options ro ce w)) = loggers w"
  "caches (snd (dispatchRender env i options ro ce w)) = caches w"
  "iframeStorage (snd (dispatchRender env i options ro ce w)) = iframeStorage w"
  "frames (snd (dispatchRender env i options ro ce w)) = frames w"
  by (simp_all add: dispatchRender_def Let_def split: sum.splits)

lemma removeContainerStep_fields [simp]:
  "events (removeContainerStep i options c w) =
     events w @
     (if m_removeContainer options = JVal True
      then DestroyFrame c #
           (if attached (frames w c) then []
            else [LogError i ''Cannot detach cloned iframe as it is not in the DOM anymore''])
      else [])"
  "loggers (removeContainerStep i options c w) = loggers w"
  "caches (removeContainerStep i options c w) = caches w"
  "iframeStorage (removeContainerStep i options c w) = iframeStorage w"
  "frames (removeContainerStep i options c w) =
     (if m_removeContainer options = JVal True
      then (frames w)(c := (frames w c)\<lparr>attached := False\<rparr>) else frames w)"
  by (simp_all add: removeContainerStep_def split_beta)

lemma saveStep_fields [simp]:
  "events (saveStep options c w) =
     events w @ (if truthy_string (m_renderName options) then [SaveIframe (string_of (m_renderName options)) c] else [])"
  "loggers (saveStep options c w) = loggers w"
  "caches (saveStep options c w) = caches w"
  "iframeStorage (saveStep options c w) =
     (if truthy_string (m_renderName options) then (iframeStorage w)(string_of (m_renderName options) \<mapsto> c)
      else iframeStorage w)"
  "frames (saveStep options c w) = frames w"
  by (simp_all add: saveStep_def)

lemma teardown_fields [simp]:
  "events (teardown i options c w) =
     events w @
     (if m_removeContainer options = JVal True
      then DestroyFrame c #
           (if attached (frames w c) then []
            else [LogError i ''Cannot detach cloned iframe as it is not in the DOM anymore''])
      else []) @
     (if truthy_string (m_renderName options) then [SaveIframe (string_of (m_renderName options)) c] else []) @
     [LogDebug i ''Finished rendering'', LoggerDestroy i, CacheDestroy i]"
  "loggers (teardown i options c w) = (loggers w)(i := None)"
  "caches (teardown i options c w) = (caches w)(i := None)"
  "iframeStorage (teardown i options c w) =
     (if truthy_string (m_renderName options) then (iframeStorage w)(string_of (m_renderName options) \<mapsto> c)
      else iframeStorage w)"
  "frames (teardown i options c w) =
     (if m_removeContainer options = JVal True
      then (frames w)(c := (frames w c)\<lparr>attached := False\<rparr>) else frames w)"
  by (simp_all add: teardown_def Let_def)


lemma duplicate_fields [simp]:
  "loggers (snd (duplicate env element options wb w)) = loggers w"
  "caches (snd (duplicate env element options wb w)) = caches w"
  "iframeStorage (snd (duplicate env element options wb w)) = iframeStorage w"
  by (simp_all add: duplicate_def Let_def split_beta split: option.splits FastCloneOutcome.splits)

lemma duplicate_fast:
  assumes "truthy_string (m_replaceSelector options)" and "truthy_string (m_renderName options)"
    and "iframeStorage w (string_of (m_renderName options)) = Some f"
    and "contentWindow (frames w f) = Some cw"
  shows "duplicate env element options wb w =
     (case fastClone env (node element) cw (string_of (m_replaceSelector options)) of
        FastCloneRejected r \<Rightarrow> Inl (Rejected r)
      | FastCloneFalsy \<Rightarrow> Inl FastCloneError
      | FastCloneResult ce \<Rightarrow> Inr (Some ce, f),
      emit (FastClone f) (emit (GetIframe (string_of (m_renderName options))) w))"
  using assms
  by (simp add: duplicate_def Let_def IframeStorage_getIframe_def split: FastCloneOutcome.splits)

lemma duplicate_full:
  assumes "\<not> (truthy_string (m_replaceSelector options) \<and> truthy_string (m_renderName options) \<and>
      (case iframeStorage w (string_of (m_renderName options)) of
         None \<Rightarrow> False | Some f \<Rightarrow> contentWindow (frames w f) \<noteq> None))"
  shows "duplicate env element options wb w =
     fullClone env wb
       (if truthy_string (m_replaceSelector options) \<and> truthy_string (m_renderName options)
        then emit (GetIframe (string_of (m_renderName options))) w else w)"
  using assms
  by (auto simp: duplicate_def Let_def IframeStorage_getIframe_def split: option.splits)

lemma started_fields [simp]:
  "events (started env element doc view opts w) =
     events w @ (if truthy_object (prop_get (o_cache opts)) then [] else [CacheCreate (instanceName env)]) @
     [LoggerCreate (instanceName env), LogDebug (instanceName env) ''Starting document clone'']"
  "loggers (started env element doc view opts w) =
     (loggers w)(instanceName env \<mapsto> m_logging (callOptions env element doc view opts))"
  "caches (started env element doc view opts w) =
     (if truthy_object (prop_get (o_cache opts)) then caches w
      else (caches w)(instanceName env \<mapsto> InstanceCache (instanceName env) (mkResourceOptions opts)))"
  "iframeStorage (started env element doc view opts w) = iframeStorage w"
  "frames (started env element doc view opts w) = frames w"
  by (simp_all add: started_def)

lemma truthy_spread_null [simp]: "truthy_string (spread JNull p) = supplied p"
  by (simp add: spread_def supplied_def split: option.splits js.splits)

lemma string_of_spread_null [simp]: "string_of (spread JNull p) = string_of (prop_get p)"
  by (simp add: spread_def prop_get_def split: option.splits js.splits)

lemma callOptions_fields [simp]:
  "m_renderName (callOptions env element doc view opts) = spread JNull (o_renderName opts)"
  "m_replaceSelector (callOptions env element doc view opts) = spread JNull (o_replaceSelector opts)"
  "m_removeContainer (callOptions env element doc view opts) = spread (JVal True) (o_removeContainer opts)"
  "m_foreignObjectRendering (callOptions env element doc view opts) =
     spread (JVal False) (o_foreignObjectRendering opts)"
  "m_logging (callOptions env element doc view opts) = spread (JVal True) (o_logging opts)"
  by (simp_all add: callOptions_def mergeOptions_def)

lemma duplicate_events:
  "events (snd (duplicate env element options wb w)) =
     events w @
     (if truthy_string (m_replaceSelector options) \<and> truthy_string (m_renderName options)
      then GetIframe (string_of (m_renderName options)) #
           (case iframeStorage w (string_of (m_renderName options)) of
              None \<Rightarrow> [CloneDocument, ToIFrame wb]
            | Some f \<Rightarrow> (case contentWindow (frames w f) of
                           None \<Rightarrow> [CloneDocument, ToIFrame wb]
                         | Some cw \<Rightarrow> [FastClone f]))
      else [CloneDocument, ToIFrame wb])"
  by (simp add: duplicate_def Let_def split_beta split: option.splits FastCloneOutcome.splits)

lemma duplicate_frames:
  "frames (snd (duplicate env element options wb w)) =
     (if truthy_string (m_replaceSelector options) \<and> truthy_string (m_renderName options) \<and>
         (case iframeStorage w (string_of (m_renderName options)) of
            None \<Rightarrow> False | Some f \<Rightarrow> contentWindow (frames w f) \<noteq> None)
      then frames w
      else (case toIFrame env wb of Inl r \<Rightarrow> frames w | Inr p \<Rightarrow> (frames w)(fst p := snd p)))"
  by (auto simp: duplicate_def Let_def split_beta split: option.splits FastCloneOutcome.splits sum.splits)

subsection \<open>The shape of a call\<close>

lemma renderBody_unfold:
  "renderBody env element doc view opts w =
     (case duplicate env element (callOptions env element doc view opts)
             (mkWindowBounds (callOptions env element doc view opts))
             (started env element doc view opts w) of
        (Inl err, w4) \<Rightarrow> (Inl err, w4)
      | (Inr (None, container), w4) \<Rightarrow> (Inl UnableToFindElement, w4)
      | (Inr (Some clonedElement, container), w4) \<Rightarrow>
          (case dispatchRender env (instanceName env) (callOptions env element doc view opts)
                  (callRenderOptions env element doc view opts) clonedElement w4 of
             (Inl err, w5) \<Rightarrow> (Inl err, w5)
           | (Inr canvas, w5) \<Rightarrow>
               (Inr canvas, teardown (instanceName env) (callOptions env element doc view opts) container w5)))"
proof -
  have dc: "defaultCache (instanceName env) (mkResourceOptions opts) opts w =
      (if truthy_object (prop_get (o_cache opts)) then prop_get (o_cache opts)
       else JVal (InstanceCache (instanceName env) (mkResourceOptions opts)),
       snd (defaultCache (instanceName env) (mkResourceOptions opts) opts w))"
    by (simp add: prod_eq_iff)
  show ?thesis
    unfolding renderBody_def Let_def callOptions_def callRenderOptions_def started_def
    by (subst dc) (simp only: prod.case)
qed

text \<open>
  The four ways a call that passed the checks of lines 40-48 ends: the duplication fails
  (lines 112-116, 124, 131), no cloned element is found (line 135), the renderer rejects
  (lines 180, 196), or the call returns its canvas after the teardown.
\<close>

lemma renderBody_cases [consumes 1, case_names DuplicateFailed NoClonedElement RenderFailed Completed]:
  assumes "renderBody env element doc view opts w = (r, w')"
  obtains
    (DuplicateFailed) err w3 where
      "w3 = started env element doc view opts w"
      "fst (duplicate env element (callOptions env element doc view opts)
         (mkWindowBounds (callOptions env element doc view opts)) w3) = Inl err"
      "w' = snd (duplicate env element (callOptions env element doc view opts)
         (mkWindowBounds (callOptions env element doc view opts)) w3)"
      "r = Inl err"
  | (NoClonedElement) c w3 where
      "w3 = started env element doc view opts w"
      "fst (duplicate env element (callOptions env element doc view opts)
         (mkWindowBounds (callOptions env element doc view opts)) w3) = Inr (None, c)"
      "w' = snd (duplicate env element (callOptions env element doc view opts)
         (mkWindowBounds (callOptions env element doc view opts)) w3)"
      "r = Inl UnableToFindElement"
  | (RenderFailed) ce c err w3 w4 where
      "w3 = started env element doc view opts w"
      "fst (duplicate env element (callOptions env element doc view opts)
         (mkWindowBounds (callOptions env element doc view opts)) w3) = Inr (Some ce, c)"
      "w4 = snd (duplicate env element (callOptions env element doc view opts)
         (mkWindowBounds (callOptions env element doc view opts)) w3)"
      "fst (dispatchRender env (instanceName env) (callOptions env element doc view opts)
         (callRenderOptions env element doc view opts) ce w4) = Inl err"
      "w' = snd (dispatchRender env (instanceName env) (callOptions env element doc view opts)
         (callRenderOptions env element doc view opts) ce w4)"
      "r = Inl err"
  | (Completed) ce c canvas w3 w4 w5 where
      "w3 = started env element doc view opts w"
      "fst (duplicate env element (callOptions env element doc view opts)
         (mkWindowBounds (callOptions env element doc view opts)) w3) = Inr (Some ce, c)"
      "w4 = snd (duplicate env element (callOptions env element doc view opts)
         (mkWindowBounds (callOptions env element doc view opts)) w3)"
      "fst (dispatchRender env (instanceName env) (callOptions env element doc view opts)
         (callRenderOptions env element doc view opts) ce w4) = Inr canvas"
      "w5 = snd (dispatchRender env (instanceName env) (callOptions env element doc view opts)
         (callRenderOptions env element doc view opts) ce w4)"
      "w' = teardown (instanceName env) (callOptions env element doc view opts) c w5"
      "r = Inr canvas"
  using assms unfolding renderBody_unfold
  by (auto split: prod.splits sum.splits option.splits)

lemma renderElement_renderBody:
  "ownerDocument element = Some doc \<Longrightarrow> defaultView doc = Some view \<Longrightarrow>
   renderElement env element opts w = renderBody env element doc view opts w"
  by (simp add: renderElement_def)

lemma supplied_JVal [simp]: "supplied (Some (JVal s)) = (s \<noteq> [])"
  by (simp add: supplied_def)

lemma prop_get_Some [simp]: "prop_get (Some v) = v"
  by (simp add: prop_get_def spread_def)

subsection \<open>The renderer calls of a call\<close>

lemma backendCalls_append [simp]: "backendCalls (xs @ ys) = backendCalls xs @ backendCalls ys"
  by (induction xs rule: backendCalls.induct) simp_all

lemma call_backend:
  assumes "ownerDocument element = Some doc" and "defaultView doc = Some view"
  shows "(backendCalls (callTrace w (snd (renderElement env element opts w))) = [] \<or>
          backendCalls (callTrace w (snd (renderElement env element opts w))) =
            [callRenderOptions env element doc view opts]) \<and>
         (\<forall>canvas. fst (renderElement env element opts w) = Inr canvas \<longrightarrow>
            backendCalls (callTrace w (snd (renderElement env element opts w))) =
              [callRenderOptions env element doc view opts])"
proof -
  obtain r w' where run: "renderBody env element doc view opts w = (r, w')"
    by (cases "renderBody env element doc view opts w")
  from run have "(backendCalls (callTrace w w') = [] \<or>
          backendCalls (callTrace w w') = [callRenderOptions env element doc view opts]) \<and>
         (\<forall>canvas. r = Inr canvas \<longrightarrow>
            backendCalls (callTrace w w') = [callRenderOptions env element doc view opts])"
  proof (cases rule: renderBody_cases)
    case (DuplicateFailed err w3)
    show ?thesis
      unfolding DuplicateFailed(3) DuplicateFailed(1) DuplicateFailed(4)
      by (simp add: duplicate_events callTrace_def split: option.splits)
  next
    case (NoClonedElement c w3)
    show ?thesis
      unfolding NoClonedElement(3) NoClonedElement(1) NoClonedElement(4)
      by (simp add: duplicate_events callTrace_def split: option.splits)
  next
    case (RenderFailed ce c err w3 w4)
    show ?thesis
      unfolding RenderFailed(5) RenderFailed(3) RenderFailed(1) RenderFailed(6)
      by (simp add: duplicate_events callTrace_def split: option.splits)
  next
    case (Completed ce c canvas w3 w4 w5)
    show ?thesis
      unfolding Completed(6) Completed(5) Completed(3) Completed(1) Completed(7)
      by (simp add: duplicate_events callTrace_def split: option.splits)
  qed
  then show ?thesis by (simp add: renderElement_renderBody [OF assms] run)
qed

lemma callRenderOptions_fields [simp]:
  "r_backgroundColor (callRenderOptions env element doc view opts) = backgroundColor env element doc opts"
  "r_x (callRenderOptions env element doc view opts) = spread (JVal (b_left (captureBounds env element doc))) (o_x opts)"
  "r_y (callRenderOptions env element doc view opts) = spread (JVal (b_top (captureBounds env element doc))) (o_y opts)"
  "r_width (callRenderOptions env element doc view opts) =
     spread (JVal (of_int \<lceil>b_width (captureBounds env element doc)\<rceil>)) (o_width opts)"
  "r_height (callRenderOptions env element doc view opts) =
     spread (JVal (of_int \<lceil>b_height (captureBounds env element doc)\<rceil>)) (o_height opts)"
  by (simp_all add: callRenderOptions_def mkRenderOptions_def callOptions_def mergeOptions_def)

lemma fullClone_computedBackgroundColor:
  "fullClone (env\<lparr>computedBackgroundColor := g\<rparr>) wb w = fullClone env wb w"
  by (simp add: fullClone_def)

lemma env_computedBackgroundColor_irrelevant:
  "captureBounds (env\<lparr>computedBackgroundColor := g\<rparr>) element doc = captureBounds env element doc"
  "duplicate (env\<lparr>computedBackgroundColor := g\<rparr>) element options wb w = duplicate env element options wb w"
  "dispatchRender (env\<lparr>computedBackgroundColor := g\<rparr>) i options ro ce w = dispatchRender env i options ro ce w"
  "defaultBackgroundColor (env\<lparr>computedBackgroundColor := g\<rparr>) opts = defaultBackgroundColor env opts"
  "instanceName (env\<lparr>computedBackgroundColor := g\<rparr>) = instanceName env"
  by (simp_all add: captureBounds_def duplicate_def fullClone_computedBackgroundColor dispatchRender_def
      defaultBackgroundColor_def Let_def split_beta split: option.splits FastCloneOutcome.splits sum.splits js.splits)

lemma fullClone_bounds_background:
  "fullClone (env\<lparr>parseBounds := pb, computedBackgroundColor := g\<rparr>) wb w = fullClone env wb w"
  by (simp add: fullClone_def)

lemma env_bounds_background_irrelevant:
  "duplicate (env\<lparr>parseBounds := pb, computedBackgroundColor := g\<rparr>) element options wb w =
     duplicate env element options wb w"
  "dispatchRender (env\<lparr>parseBounds := pb, computedBackgroundColor := g\<rparr>) i options ro ce w =
     dispatchRender env i options ro ce w"
  "defaultBackgroundColor (env\<lparr>parseBounds := pb, computedBackgroundColor := g\<rparr>) opts =
     defaultBackgroundColor env opts"
  "instanceName (env\<lparr>parseBounds := pb, computedBackgroundColor := g\<rparr>) = instanceName env"
  by (simp_all add: duplicate_def fullClone_bounds_background dispatchRender_def
      defaultBackgroundColor_def Let_def split_beta
      split: option.splits FastCloneOutcome.splits sum.splits js.splits)

subsection \<open>The outcome of a call\<close>

lemma destroyCalls_append [simp]: "destroyCalls (xs @ ys) = destroyCalls xs @ destroyCalls ys"
  by (induction xs rule: destroyCalls.induct) simp_all

lemma rendererAnswers_append [simp]:
  "rendererAnswers env (xs @ ys) = rendererAnswers env xs @ rendererAnswers env ys"
  by (induction env xs rule: rendererAnswers.induct) simp_all

lemma duplicated_fields [simp]:
  "events (snd (duplicated env element doc view opts w)) =
     events w @
     (if truthy_object (prop_get (o_cache opts)) then [] else [CacheCreate (instanceName env)]) @
     [LoggerCreate (instanceName env), LogDebug (instanceName env) ''Starting document clone''] @
     (if supplied (o_replaceSelector opts) \<and> supplied (o_renderName opts)
      then [GetIframe (string_of (prop_get (o_renderName opts)))] else []) @
     (if fastPathQualifies opts w
      then (case iframeStorage w (string_of (prop_get (o_renderName opts))) of
              None \<Rightarrow> [] | Some f \<Rightarrow> [FastClone f])
      else [CloneDocument, ToIFrame (mkWindowBounds (callOptions env element doc view opts))])"
  "loggers (snd (duplicated env element doc view opts w)) =
     (loggers w)(instanceName env \<mapsto> spread (JVal True) (o_logging opts))"
  "caches (snd (duplicated env element doc view opts w)) =
     (if truthy_object (prop_get (o_cache opts)) then caches w
      else (caches w)(instanceName env \<mapsto> InstanceCache (instanceName env) (mkResourceOptions opts)))"
  "iframeStorage (snd (duplicated env element doc view opts w)) = iframeStorage w"
  "frames (snd (duplicated env element doc view opts w)) =
     (if fastPathQualifies opts w then frames w
      else (case toIFrame env (mkWindowBounds (callOptions env element doc view opts)) of
              Inl r \<Rightarrow> frames w | Inr p \<Rightarrow> (frames w)(fst p := snd p)))"
  by (auto simp: duplicated_def duplicate_events duplicate_frames fastPathQualifies_def split: option.splits sum.splits)

lemma duplicated_container:
  assumes "fst (duplicated env element doc view opts w) = Inr (ce, c)"
  shows "if fastPathQualifies opts w
         then iframeStorage w (string_of (prop_get (o_renderName opts))) = Some c
         else (\<exists>fr. toIFrame env (mkWindowBounds (callOptions env element doc view opts)) = Inr (c, fr))"
proof (cases "fastPathQualifies opts w")
  case True
  then obtain f cw where f: "iframeStorage w (string_of (prop_get (o_renderName opts))) = Some f"
      "contentWindow (frames w f) = Some cw"
    by (auto simp: fastPathQualifies_def split: option.splits)
  from True have s: "supplied (o_replaceSelector opts)" "supplied (o_renderName opts)"
    by (simp_all add: fastPathQualifies_def)
  have "duplicated env element doc view opts w =
     (case fastClone env (node element) cw (string_of (prop_get (o_replaceSelector opts))) of
        FastCloneRejected r \<Rightarrow> Inl (Rejected r)
      | FastCloneFalsy \<Rightarrow> Inl FastCloneError
      | FastCloneResult ce \<Rightarrow> Inr (Some ce, f),
      emit (FastClone f) (emit (GetIframe (string_of (prop_get (o_renderName opts))))
        (started env element doc view opts w)))"
    unfolding duplicated_def using f s
    by (subst duplicate_fast [where f = f and cw = cw]) simp_all
  with assms True f show ?thesis
    by (auto split: FastCloneOutcome.splits)
next
  case False
  then have "duplicated env element doc view opts w =
      fullClone env (mkWindowBounds (callOptions env element doc view opts))
       (if supplied (o_replaceSelector opts) \<and> supplied (o_renderName opts)
        then emit (GetIframe (string_of (prop_get (o_renderName opts)))) (started env element doc view opts w)
        else started env element doc view opts w)"
    unfolding duplicated_def
    by (subst duplicate_full) (auto simp: fastPathQualifies_def split: option.splits)
  with assms False show ?thesis
    by (auto split: sum.splits simp: prod_eq_iff)
qed

text \<open>
  A call that passed the checks of lines 40-48 either fails, before the teardown, or
  returns its canvas, after it.
\<close>

lemma call_cases [consumes 2, case_names CallFailed CallCompleted]:
  assumes "ownerDocument element = Some doc" and "defaultView doc = Some view"
  obtains
    (CallFailed) err where
      "fst (renderElement env element opts w) = Inl err"
      "destroyCalls (callTrace w (snd (renderElement env element opts w))) = []"
      "filter isFrameDisposal (callTrace w (snd (renderElement env element opts w))) = []"
      "\<forall>canvas. rendererAnswers env (callTrace w (snd (renderElement env element opts w))) \<noteq> [Inr canvas]"
      "loggers (snd (renderElement env element opts w)) =
         (loggers w)(instanceName env \<mapsto> spread (JVal True) (o_logging opts))"
      "frames (snd (renderElement env element opts w)) = frames (snd (duplicated env element doc view opts w))"
      "iframeStorage (snd (renderElement env element opts w)) = iframeStorage w"
  | (CallCompleted) ce c canvas where
      "fst (renderElement env element opts w) = Inr canvas"
      "fst (duplicated env element doc view opts w) = Inr (Some ce, c)"
      "snd (renderElement env element opts w) =
         teardown (instanceName env) (callOptions env element doc view opts) c
           (snd (dispatchRender env (instanceName env) (callOptions env element doc view opts)
                  (callRenderOptions env element doc view opts) ce
                  (snd (duplicated env element doc view opts w))))"
      "rendererAnswers env (callTrace w (snd (renderElement env element opts w))) = [Inr canvas]"
proof -
  obtain r w' where run: "renderBody env element doc view opts w = (r, w')"
    by (cases "renderBody env element doc view opts w")
  have re: "renderElement env element opts w = (r, w')"
    using assms run by (simp add: renderElement_renderBody)
  from run show thesis
  proof (cases rule: renderBody_cases)
    case (DuplicateFailed err w3)
    have "w' = snd (duplicated env element doc view opts w)"
      using DuplicateFailed(1,3) by (simp add: duplicated_def)
    then show ?thesis
      using DuplicateFailed(4) re
      by (intro CallFailed [of err]) (auto simp: callTrace_def split: option.splits)
  next
    case (NoClonedElement c w3)
    have "w' = snd (duplicated env element doc view opts w)"
      using NoClonedElement(1,3) by (simp add: duplicated_def)
    then show ?thesis
      using NoClonedElement(4) re
      by (intro CallFailed [of UnableToFindElement]) (auto simp: callTrace_def split: option.splits)
  next
    case (RenderFailed ce c err w3 w4)
    have w4: "w4 = snd (duplicated env element doc view opts w)"
      using RenderFailed(1,3) by (simp add: duplicated_def)
    show ?thesis
      using RenderFailed(4,6) re
      unfolding RenderFailed(5) w4
      by (intro CallFailed [of err])
         (auto simp: callTrace_def dispatchRender_result split: option.splits if_splits sum.splits)
  next
    case (Completed ce c canvas w3 w4 w5)
    have w4: "w4 = snd (duplicated env element doc view opts w)"
      using Completed(1,3) by (simp add: duplicated_def)
    have d: "fst (duplicated env element doc view opts w) = Inr (Some ce, c)"
      using Completed(1,2) by (simp add: duplicated_def)
    show ?thesis
      using Completed(4,7) re d
      unfolding Completed(6) Completed(5) w4
      by (intro CallCompleted [of canvas ce c])
         (auto simp: callTrace_def dispatchRender_result split: option.splits if_splits sum.splits)
  qed
qed

lemma removeContainer_true_iff:
  "(spread (JVal True) p = JVal True) = (p = None \<or> p = Some (JVal True))"
  by (auto simp: spread_def split: option.splits)

lemma completed_call_releases_instance:
  assumes "ownerDocument element = Some doc" and "defaultView doc = Some view"
    and "fst (renderElement env element opts w) = Inr canvas"
  shows "loggers (snd (renderElement env element opts w)) (instanceName env) = None \<and>
         caches (snd (renderElement env element opts w)) (instanceName env) = None"
  using assms(1,2)
proof (cases rule: call_cases [where env = env and opts = opts and w = w])
  case (CallFailed err)
  with assms(3) show ?thesis by simp
next
  case (CallCompleted ce c canvas')
  show ?thesis unfolding CallCompleted(3) by simp
qed

text \<open>The definitions that a concrete call is evaluated with.\<close>

lemmas run_defs = renderElement_def renderBody_def defaultCache_def duplicate_def fullClone_def
  dispatchRender_def teardown_def removeContainerStep_def saveStep_def Let_def
  mergeOptions_def mkWindowBounds_def mkRenderOptions_def mkResourceOptions_def captureBounds_def
  backgroundColor_def defaultBackgroundColor_def documentBackgroundColor_def bodyBackgroundColor_def
  spread_def prop_get_def callTrace_def

section \<open>The claims\<close>

subsection \<open>The choice of the duplication path\<close>

text \<open>
  Claim C1. For every call that passes the checks of lines 40-48, the fast path is
  attempted (\<^verbatim>\<open>fastClone.clone()\<close> is called) exactly when \<^verbatim>\<open>replaceSelector\<close> and
  \<^verbatim>\<open>renderName\<close> are both supplied, the named-frame cache has an entry for the render
  name, and the window of that entry's frame is not null; in every other case the full
  path is taken (\<^verbatim>\<open>cloneDocument()\<close>, then \<^verbatim>\<open>toIFrame\<close>). Supplied is read as line 102
  tests it: the option is a non-empty string.
\<close>

theorem fast_path_decision:
  assumes "ownerDocument element = Some doc" and "defaultView doc = Some view"
  shows "fastPathAttempted (callTrace w (snd (renderElement env element opts w))) = fastPathQualifies opts w \<and>
         fullPathTaken (callTrace w (snd (renderElement env element opts w))) = (\<not> fastPathQualifies opts w)"
proof -
  obtain r w' where run: "renderBody env element doc view opts w = (r, w')"
    by (cases "renderBody env element doc view opts w")
  from run have "fastPathAttempted (callTrace w w') = fastPathQualifies opts w \<and>
         fullPathTaken (callTrace w w') = (\<not> fastPathQualifies opts w)"
  proof (cases rule: renderBody_cases)
    case (DuplicateFailed err w3)
    show ?thesis
      unfolding DuplicateFailed(3) DuplicateFailed(1)
      by (auto simp: duplicate_events callTrace_def fastPathAttempted_def fastPathQualifies_def split: option.splits)
  next
    case (NoClonedElement c w3)
    show ?thesis
      unfolding NoClonedElement(3) NoClonedElement(1)
      by (auto simp: duplicate_events callTrace_def fastPathAttempted_def fastPathQualifies_def split: option.splits)
  next
    case (RenderFailed ce c err w3 w4)
    show ?thesis
      unfolding RenderFailed(5) RenderFailed(3) RenderFailed(1)
      by (auto simp: duplicate_events callTrace_def fastPathAttempted_def fastPathQualifies_def split: option.splits)
  next
    case (Completed ce c canvas w3 w4 w5)
    show ?thesis
      unfolding Completed(6) Completed(5) Completed(3) Completed(1)
      by (auto simp: duplicate_events callTrace_def fastPathAttempted_def fastPathQualifies_def split: option.splits)
  qed
  then show ?thesis by (simp add: renderElement_renderBody [OF assms] run)
qed

theorem fast_path_decision_witness:
  "ownerDocument divA = Some docA \<and> defaultView docA = Some viewA \<and>
   fastPathAttempted (callTrace worldB (snd (renderElement envA divA optsFast worldB))) \<and>
   \<not> fullPathTaken (callTrace worldB (snd (renderElement envA divA optsFast worldB)))"
  using fast_path_decision [of divA docA viewA worldB envA optsFast]
  by (simp add: divA_def docA_def optsFast_def optsA_def worldB_def worldA_def fastPathQualifies_def)

text \<open>
  Claim C2. For every call in which the fast path is attempted and the fast-clone attempt
  yields the failure sentinel instead of a duplicated element, the call fails with the
  fast-clone error of line 115, at once (the call to the fast cloner is the last thing it
  does), and no step of the full path and no renderer call is made.
\<close>

theorem fast_clone_failure_no_fallback:
  assumes "ownerDocument element = Some doc" and "defaultView doc = Some view"
    and "o_replaceSelector opts = Some (JVal sel)" and "sel \<noteq> []"
    and "o_renderName opts = Some (JVal name)" and "name \<noteq> []"
    and "iframeStorage w name = Some f" and "contentWindow (frames w f) = Some cw"
    and "fastClone env (node element) cw sel = FastCloneFalsy"
  shows "fst (renderElement env element opts w) = Inl FastCloneError \<and>
         \<not> list_ex isFullPathStep (callTrace w (snd (renderElement env element opts w))) \<and>
         last (callTrace w (snd (renderElement env element opts w))) = FastClone f \<and>
         backendCalls (callTrace w (snd (renderElement env element opts w))) = []"
proof -
  let ?options = "callOptions env element doc view opts"
  let ?w3 = "started env element doc view opts w"
  have "duplicate env element ?options (mkWindowBounds ?options) ?w3 =
      (Inl FastCloneError, emit (FastClone f) (emit (GetIframe name) ?w3))"
    using assms(3-9) by (subst duplicate_fast [where f = f and cw = cw]) simp_all
  then have "renderBody env element doc view opts w =
      (Inl FastCloneError, emit (FastClone f) (emit (GetIframe name) ?w3))"
    by (simp add: renderBody_unfold)
  then show ?thesis
    by (simp add: renderElement_renderBody [OF assms(1,2)] callTrace_def)
qed

theorem fast_clone_failure_witness:
  "ownerDocument divA = Some docA \<and> defaultView docA = Some viewA \<and>
   o_replaceSelector optsFast = Some (JVal ''#slot'') \<and> o_renderName optsFast = Some (JVal ''panel'') \<and>
   iframeStorage worldB ''panel'' = Some 5 \<and> contentWindow (frames worldB 5) = Some 50 \<and>
   fastClone (envA\<lparr>fastClone := \<lambda>e cw sel. FastCloneFalsy\<rparr>) (node divA) 50 ''#slot'' = FastCloneFalsy \<and>
   fst (renderElement (envA\<lparr>fastClone := \<lambda>e cw sel. FastCloneFalsy\<rparr>) divA optsFast worldB) = Inl FastCloneError \<and>
   \<not> list_ex isFullPathStep
       (callTrace worldB (snd (renderElement (envA\<lparr>fastClone := \<lambda>e cw sel. FastCloneFalsy\<rparr>) divA optsFast worldB)))"
  using fast_clone_failure_no_fallback [of divA docA viewA optsFast "''#slot''" "''panel''" worldB 5 50
      "envA\<lparr>fastClone := \<lambda>e cw sel. FastCloneFalsy\<rparr>"]
  by (simp add: divA_def docA_def optsFast_def optsA_def worldB_def worldA_def)

subsection \<open>The checks at entry\<close>

text \<open>
  Claim C7. For every call whose target element has no owner document, or whose owner
  document has no window, the call fails with the error of line 41 or of line 47, and the
  world is as it was: no run identity was minted, no logger and no resource cache was
  registered, no frame was made or touched, no collaborator was called.
\<close>

theorem precondition_error_before_any_resource:
  assumes "ownerDocument element = None \<or> (\<exists>doc. ownerDocument element = Some doc \<and> defaultView doc = None)"
  shows "(fst (renderElement env element opts w) = Inl NotAttachedToDocument \<or>
          fst (renderElement env element opts w) = Inl NotAttachedToWindow) \<and>
         snd (renderElement env element opts w) = w"
  using assms by (auto simp: renderElement_def)

theorem precondition_error_witness:
  "ownerDocument detachedA = None \<and>
   fst (renderElement envA detachedA optsFast worldB) = Inl NotAttachedToDocument \<and>
   snd (renderElement envA detachedA optsFast worldB) = worldB"
  using precondition_error_before_any_resource [of detachedA envA optsFast worldB]
  by (simp add: detachedA_def renderElement_def)

subsection \<open>The background colour\<close>

text \<open>
  Claim C3. For every call whose target element is the root element of its document,
  every renderer call gets this background: the parsed computed background of the root
  when that is not transparent (the caller's option plays no part); else the parsed
  computed background of the document's body when that is not transparent; else the base
  default: the parsed option when it is a string, \<^verbatim>\<open>COLORS.TRANSPARENT\<close> when it is
  null, \<^verbatim>\<open>0xffffffff\<close> when it is absent or undefined. (A document without a body has
  \<^verbatim>\<open>COLORS.TRANSPARENT\<close> in the body's place, line 144.) A call that returns a canvas has
  made a renderer call.
\<close>

theorem root_background_cascade:
  assumes "ownerDocument element = Some doc" and "defaultView doc = Some view"
    and "documentElement doc = Some (node element)"
  shows "list_all (\<lambda>ro. r_backgroundColor ro =
            (if \<not> isTransparent env (parseColor env (computedBackgroundColor env (node element)))
             then parseColor env (computedBackgroundColor env (node element))
             else if \<not> isTransparent env
                        (case body doc of
                           Some bodyEl \<Rightarrow> parseColor env (computedBackgroundColor env bodyEl)
                         | None \<Rightarrow> TRANSPARENT env)
             then (case body doc of
                     Some bodyEl \<Rightarrow> parseColor env (computedBackgroundColor env bodyEl)
                   | None \<Rightarrow> TRANSPARENT env)
             else (case o_backgroundColor opts of
                     Some (JVal s) \<Rightarrow> parseColor env s
                   | Some JNull \<Rightarrow> TRANSPARENT env
                   | Some JUndefined \<Rightarrow> 0xffffffff
                   | None \<Rightarrow> 0xffffffff)))
           (backendCalls (callTrace w (snd (renderElement env element opts w)))) \<and>
         (\<forall>canvas. fst (renderElement env element opts w) = Inr canvas \<longrightarrow>
            backendCalls (callTrace w (snd (renderElement env element opts w))) \<noteq> [])"
proof -
  have base: "defaultBackgroundColor env opts =
           (case o_backgroundColor opts of
              Some (JVal s) \<Rightarrow> parseColor env s
            | Some JNull \<Rightarrow> TRANSPARENT env
            | Some JUndefined \<Rightarrow> 0xffffffff
            | None \<Rightarrow> 0xffffffff)"
    by (simp add: defaultBackgroundColor_def prop_get_def spread_def split: option.splits js.splits)
  have bg: "backgroundColor env element doc opts =
      (if \<not> isTransparent env (parseColor env (computedBackgroundColor env (node element)))
       then parseColor env (computedBackgroundColor env (node element))
       else if \<not> isTransparent env
                  (case body doc of
                     Some bodyEl \<Rightarrow> parseColor env (computedBackgroundColor env bodyEl)
                   | None \<Rightarrow> TRANSPARENT env)
       then (case body doc of
               Some bodyEl \<Rightarrow> parseColor env (computedBackgroundColor env bodyEl)
             | None \<Rightarrow> TRANSPARENT env)
       else (case o_backgroundColor opts of
               Some (JVal s) \<Rightarrow> parseColor env s
             | Some JNull \<Rightarrow> TRANSPARENT env
             | Some JUndefined \<Rightarrow> 0xffffffff
             | None \<Rightarrow> 0xffffffff))"
    using assms(3)
    by (simp add: backgroundColor_def documentBackgroundColor_def bodyBackgroundColor_def base)
  from call_backend [OF assms(1,2), of w env opts] show ?thesis
    by (auto simp: bg [symmetric])
qed

text \<open>
  The three layers at work on the root of the page: an opaque root under the option
  \<^verbatim>\<open>#ffffff\<close>; a transparent root over a grey body; root and body transparent under
  the option \<^verbatim>\<open>null\<close>.
\<close>

theorem root_background_cascade_witness:
  "ownerDocument htmlA = Some docA \<and> defaultView docA = Some viewA \<and>
   documentElement docA = Some (node htmlA) \<and> body docA = Some 2 \<and>
   fst (renderElement envA htmlA (optsA\<lparr>o_backgroundColor := Some (JVal ''#ffffff'')\<rparr>) worldA) = Inr 501 \<and>
   backendCalls (callTrace worldA
        (snd (renderElement envA htmlA (optsA\<lparr>o_backgroundColor := Some (JVal ''#ffffff'')\<rparr>) worldA))) \<noteq> [] \<and>
   list_all (\<lambda>ro. r_backgroundColor ro = 0x0a141eff)
     (backendCalls (callTrace worldA
        (snd (renderElement envA htmlA (optsA\<lparr>o_backgroundColor := Some (JVal ''#ffffff'')\<rparr>) worldA)))) \<and>
   fst (renderElement envBody htmlA (optsA\<lparr>o_backgroundColor := Some (JVal ''#ffffff'')\<rparr>) worldA) = Inr 501 \<and>
   backendCalls (callTrace worldA
        (snd (renderElement envBody htmlA (optsA\<lparr>o_backgroundColor := Some (JVal ''#ffffff'')\<rparr>) worldA))) \<noteq> [] \<and>
   list_all (\<lambda>ro. r_backgroundColor ro = 0xc8c8c8ff)
     (backendCalls (callTrace worldA
        (snd (renderElement envBody htmlA (optsA\<lparr>o_backgroundColor := Some (JVal ''#ffffff'')\<rparr>) worldA)))) \<and>
   fst (renderElement envClear htmlA (optsA\<lparr>o_backgroundColor := Some JNull\<rparr>) worldA) = Inr 501 \<and>
   backendCalls (callTrace worldA
        (snd (renderElement envClear htmlA (optsA\<lparr>o_backgroundColor := Some JNull\<rparr>) worldA))) \<noteq> [] \<and>
   list_all (\<lambda>ro. r_backgroundColor ro = 0)
     (backendCalls (callTrace worldA
        (snd (renderElement envClear htmlA (optsA\<lparr>o_backgroundColor := Some JNull\<rparr>) worldA))))"
proof -
  have h: "ownerDocument htmlA = Some docA" "defaultView docA = Some viewA"
    "documentElement docA = Some (node htmlA)" "body docA = Some 2"
    by (simp_all add: htmlA_def docA_def)
  have r1: "fst (renderElement envA htmlA (optsA\<lparr>o_backgroundColor := Some (JVal ''#ffffff'')\<rparr>) worldA) = Inr 501"
    by (simp add: renderElement_def renderBody_unfold htmlA_def docA_def duplicate_def fullClone_def
        dispatchRender_def Let_def envA_def optsA_def callOptions_def mergeOptions_def spread_def)
  have r2: "fst (renderElement envBody htmlA (optsA\<lparr>o_backgroundColor := Some (JVal ''#ffffff'')\<rparr>) worldA) = Inr 501"
    by (simp add: renderElement_def renderBody_unfold htmlA_def docA_def duplicate_def fullClone_def
        dispatchRender_def Let_def envBody_def envA_def optsA_def callOptions_def mergeOptions_def spread_def)
  have r3: "fst (renderElement envClear htmlA (optsA\<lparr>o_backgroundColor := Some JNull\<rparr>) worldA) = Inr 501"
    by (simp add: renderElement_def renderBody_unfold htmlA_def docA_def duplicate_def fullClone_def
        dispatchRender_def Let_def envClear_def envA_def optsA_def callOptions_def mergeOptions_def spread_def)
  have c1: "parseColor envA (computedBackgroundColor envA (node htmlA)) = 0x0a141eff"
    "\<not> isTransparent envA 0x0a141eff"
    by (simp_all add: envA_def htmlA_def)
  have c2: "parseColor envBody (computedBackgroundColor envBody (node htmlA)) = 0"
    "parseColor envBody (computedBackgroundColor envBody 2) = 0xc8c8c8ff"
    "isTransparent envBody 0" "\<not> isTransparent envBody 0xc8c8c8ff"
    by (simp_all add: envBody_def envA_def htmlA_def)
  have c3: "parseColor envClear (computedBackgroundColor envClear (node htmlA)) = 0"
    "parseColor envClear (computedBackgroundColor envClear 2) = 0"
    "isTransparent envClear 0" "TRANSPARENT envClear = 0"
    by (simp_all add: envClear_def envA_def htmlA_def)
  have o: "o_backgroundColor (optsA\<lparr>o_backgroundColor := Some JNull\<rparr>) = Some JNull"
    by simp
  show ?thesis
    using root_background_cascade [OF h(1-3), of envA
        "optsA\<lparr>o_backgroundColor := Some (JVal ''#ffffff'')\<rparr>" worldA]
      root_background_cascade [OF h(1-3), of envBody
        "optsA\<lparr>o_backgroundColor := Some (JVal ''#ffffff'')\<rparr>" worldA]
      root_background_cascade [OF h(1-3), of envClear
        "optsA\<lparr>o_backgroundColor := Some JNull\<rparr>" worldA]
      r1 r2 r3 h
    by (simp add: c1 c2 c3 cong: if_cong)
qed

text \<open>
  Claim C4. For every call whose target element is not the root element of its document,
  every renderer call gets the base default as background: the parsed option when it is a
  string, \<^verbatim>\<open>COLORS.TRANSPARENT\<close> when it is null, \<^verbatim>\<open>0xffffffff\<close> when it is absent or
  undefined. The computed backgrounds have no part in the call: with any other computed
  backgrounds in their place the call ends in the same result and the same world.
\<close>

theorem element_background_is_base_default:
  assumes "ownerDocument element = Some doc" and "defaultView doc = Some view"
    and "documentElement doc \<noteq> Some (node element)"
  shows "list_all (\<lambda>ro. r_backgroundColor ro = defaultBackgroundColor env opts)
           (backendCalls (callTrace w (snd (renderElement env element opts w)))) \<and>
         (\<forall>canvas. fst (renderElement env element opts w) = Inr canvas \<longrightarrow>
            backendCalls (callTrace w (snd (renderElement env element opts w))) \<noteq> []) \<and>
         defaultBackgroundColor env opts =
           (case o_backgroundColor opts of
              Some (JVal s) \<Rightarrow> parseColor env s
            | Some JNull \<Rightarrow> TRANSPARENT env
            | Some JUndefined \<Rightarrow> 0xffffffff
            | None \<Rightarrow> 0xffffffff) \<and>
         renderElement (env\<lparr>computedBackgroundColor := g\<rparr>) element opts w = renderElement env element opts w"
proof -
  have bg: "backgroundColor env' element doc opts = defaultBackgroundColor env' opts" for env'
    using assms(3) by (auto simp: backgroundColor_def)
  have base: "defaultBackgroundColor env opts =
           (case o_backgroundColor opts of
              Some (JVal s) \<Rightarrow> parseColor env s
            | Some JNull \<Rightarrow> TRANSPARENT env
            | Some JUndefined \<Rightarrow> 0xffffffff
            | None \<Rightarrow> 0xffffffff)"
    by (simp add: defaultBackgroundColor_def prop_get_def spread_def split: option.splits js.splits)
  have "renderBody (env\<lparr>computedBackgroundColor := g\<rparr>) element doc view opts w =
      renderBody env element doc view opts w"
    unfolding renderBody_def Let_def bg env_computedBackgroundColor_irrelevant
    by (rule refl)
  then have indep: "renderElement (env\<lparr>computedBackgroundColor := g\<rparr>) element opts w =
      renderElement env element opts w"
    by (simp add: renderElement_renderBody [OF assms(1,2)])
  from call_backend [OF assms(1,2), of w env opts] have
    "list_all (\<lambda>ro. r_backgroundColor ro = defaultBackgroundColor env opts)
           (backendCalls (callTrace w (snd (renderElement env element opts w)))) \<and>
         (\<forall>canvas. fst (renderElement env element opts w) = Inr canvas \<longrightarrow>
            backendCalls (callTrace w (snd (renderElement env element opts w))) \<noteq> [])"
    by (auto simp: bg)
  with base indep show ?thesis by blast
qed

theorem element_background_witness:
  "ownerDocument divA = Some docA \<and> defaultView docA = Some viewA \<and>
   documentElement docA \<noteq> Some (node divA) \<and>
   fst (renderElement envA divA (optsA\<lparr>o_backgroundColor := Some (JVal ''#ff0000'')\<rparr>) worldA) = Inr 501 \<and>
   list_all (\<lambda>ro. r_backgroundColor ro = 0xff0000ff)
     (backendCalls (callTrace worldA
        (snd (renderElement envA divA (optsA\<lparr>o_backgroundColor := Some (JVal ''#ff0000'')\<rparr>) worldA)))) \<and>
   backendCalls (callTrace worldA
        (snd (renderElement envA divA (optsA\<lparr>o_backgroundColor := Some (JVal ''#ff0000'')\<rparr>) worldA))) \<noteq> [] \<and>
   renderElement (envA\<lparr>computedBackgroundColor := \<lambda>e. ''rgb(200, 200, 200)''\<rparr>) divA
       (optsA\<lparr>o_backgroundColor := Some (JVal ''#ff0000'')\<rparr>) worldA =
     renderElement envA divA (optsA\<lparr>o_backgroundColor := Some (JVal ''#ff0000'')\<rparr>) worldA"
proof -
  have r: "fst (renderElement envA divA (optsA\<lparr>o_backgroundColor := Some (JVal ''#ff0000'')\<rparr>) worldA) = Inr 501"
    by (simp add: renderElement_def renderBody_unfold divA_def docA_def duplicate_def fullClone_def
        dispatchRender_def Let_def envA_def optsA_def callOptions_def mergeOptions_def spread_def)
  have base: "defaultBackgroundColor envA (optsA\<lparr>o_backgroundColor := Some (JVal ''#ff0000'')\<rparr>) = 0xff0000ff"
    by (simp add: defaultBackgroundColor_def envA_def)
  have h: "ownerDocument divA = Some docA" "defaultView docA = Some viewA"
    "documentElement docA \<noteq> Some (node divA)"
    by (simp_all add: divA_def docA_def)
  show ?thesis
    using element_background_is_base_default [OF h, of envA
        "optsA\<lparr>o_backgroundColor := Some (JVal ''#ff0000'')\<rparr>" worldA "\<lambda>e. ''rgb(200, 200, 200)''"] r h
    by (simp add: base)
qed

text \<open>
  Claim C10. For every call whose target is a body element (as line 53 tests it) and not
  the root element of its document: the capture rectangle of lines 52-53 is the size of
  the document, and every renderer call gets it (left, top, and width and height rounded
  up) wherever the caller's options do not set \<^verbatim>\<open>x\<close>, \<^verbatim>\<open>y\<close>, \<^verbatim>\<open>width\<close>,
  \<^verbatim>\<open>height\<close> themselves; the element's own bounds have no part in the call; and the
  background is the base default, the computed backgrounds having no part either.
\<close>

theorem body_capture_uses_document_size:
  assumes "ownerDocument element = Some doc" and "defaultView doc = Some view"
    and "isBodyElement env element" and "documentElement doc \<noteq> Some (node element)"
  shows "captureBounds env element doc = parseDocumentSize env doc \<and>
         list_all (\<lambda>ro.
             r_x ro = spread (JVal (b_left (parseDocumentSize env doc))) (o_x opts) \<and>
             r_y ro = spread (JVal (b_top (parseDocumentSize env doc))) (o_y opts) \<and>
             r_width ro = spread (JVal (of_int \<lceil>b_width (parseDocumentSize env doc)\<rceil>)) (o_width opts) \<and>
             r_height ro = spread (JVal (of_int \<lceil>b_height (parseDocumentSize env doc)\<rceil>)) (o_height opts) \<and>
             r_backgroundColor ro = defaultBackgroundColor env opts)
           (backendCalls (callTrace w (snd (renderElement env element opts w)))) \<and>
         (\<forall>canvas. fst (renderElement env element opts w) = Inr canvas \<longrightarrow>
            backendCalls (callTrace w (snd (renderElement env element opts w))) \<noteq> []) \<and>
         renderElement (env\<lparr>parseBounds := pb, computedBackgroundColor := g\<rparr>) element opts w =
           renderElement env element opts w"
proof -
  have cb: "captureBounds env element doc = parseDocumentSize env doc"
    using assms(3) by (simp add: captureBounds_def)
  have cb': "captureBounds (env\<lparr>parseBounds := pb, computedBackgroundColor := g\<rparr>) element doc =
      captureBounds env element doc"
    using assms(3) by (simp add: captureBounds_def)
  have bg: "backgroundColor env' element doc opts = defaultBackgroundColor env' opts" for env'
    using assms(4) by (auto simp: backgroundColor_def)
  have "renderBody (env\<lparr>parseBounds := pb, computedBackgroundColor := g\<rparr>) element doc view opts w =
      renderBody env element doc view opts w"
    unfolding renderBody_def Let_def bg cb' env_bounds_background_irrelevant
    by (rule refl)
  then have indep: "renderElement (env\<lparr>parseBounds := pb, computedBackgroundColor := g\<rparr>) element opts w =
      renderElement env element opts w"
    by (simp add: renderElement_renderBody [OF assms(1,2)])
  from call_backend [OF assms(1,2), of w env opts] have
    "list_all (\<lambda>ro.
             r_x ro = spread (JVal (b_left (parseDocumentSize env doc))) (o_x opts) \<and>
             r_y ro = spread (JVal (b_top (parseDocumentSize env doc))) (o_y opts) \<and>
             r_width ro = spread (JVal (of_int \<lceil>b_width (parseDocumentSize env doc)\<rceil>)) (o_width opts) \<and>
             r_height ro = spread (JVal (of_int \<lceil>b_height (parseDocumentSize env doc)\<rceil>)) (o_height opts) \<and>
             r_backgroundColor ro = defaultBackgroundColor env opts)
           (backendCalls (callTrace w (snd (renderElement env element opts w)))) \<and>
         (\<forall>canvas. fst (renderElement env element opts w) = Inr canvas \<longrightarrow>
            backendCalls (callTrace w (snd (renderElement env element opts w))) \<noteq> [])"
    by (auto simp: bg cb)
  with cb indep show ?thesis by blast
qed

theorem body_capture_witness:
  "ownerDocument bodyA = Some docA \<and> defaultView docA = Some viewA \<and>
   isBodyElement envGrey bodyA \<and> documentElement docA \<noteq> Some (node bodyA) \<and>
   fst (renderElement envGrey bodyA optsA worldA) = Inr 501 \<and>
   list_all (\<lambda>ro. r_x ro = JVal 0 \<and> r_y ro = JVal 0 \<and> r_width ro = JVal 1280 \<and> r_height ro = JVal 3000 \<and>
                  r_backgroundColor ro = 0xffffffff)
     (backendCalls (callTrace worldA (snd (renderElement envGrey bodyA optsA worldA)))) \<and>
   backendCalls (callTrace worldA (snd (renderElement envGrey bodyA optsA worldA))) \<noteq> []"
proof -
  have r: "fst (renderElement envGrey bodyA optsA worldA) = Inr 501"
    by (simp add: renderElement_def renderBody_unfold bodyA_def docA_def duplicate_def fullClone_def
        dispatchRender_def Let_def envGrey_def envA_def optsA_def callOptions_def mergeOptions_def spread_def)
  have base: "defaultBackgroundColor envGrey optsA = 0xffffffff"
    by (simp add: defaultBackgroundColor_def optsA_def prop_get_def spread_def)
  have size: "parseDocumentSize envGrey docA = \<lparr>b_left = 0, b_top = 0, b_width = 1280, b_height = 3000\<rparr>"
    by (simp add: envGrey_def envA_def)
  have h: "ownerDocument bodyA = Some docA" "defaultView docA = Some viewA"
    "isBodyElement envGrey bodyA" "documentElement docA \<noteq> Some (node bodyA)"
    by (simp_all add: bodyA_def docA_def envGrey_def envA_def)
  have o: "o_x optsA = None" "o_y optsA = None" "o_width optsA = None" "o_height optsA = None"
    by (simp_all add: optsA_def)
  show ?thesis
    using body_capture_uses_document_size [OF h, where opts = optsA and w = worldA
        and pb = "parseBounds envGrey" and g = "computedBackgroundColor envGrey"] r h
    by (simp add: base size spread_def o)
qed

subsection \<open>The teardown\<close>

text \<open>
  Claim C9 fails as stated. The caller's object \<^verbatim>\<open>{removeContainer: undefined}\<close> has the
  property, so the spread of line 84 puts \<^verbatim>\<open>undefined\<close> over the default
  \<^verbatim>\<open>true\<close>, the test \<^verbatim>\<open>options.removeContainer === true\<close> of line 199 is false, and
  the frame stays.
\<close>

theorem explicit_undefined_keeps_frame:
  "o_removeContainer optsUndef = Some JUndefined \<and>
   fst (renderElement envA divA optsUndef worldA) = Inr 501 \<and>
   destroyCalls (callTrace worldA (snd (renderElement envA divA optsUndef worldA))) = [] \<and>
   attached (frames (snd (renderElement envA divA optsUndef worldA)) 7)"
  by (simp add: run_defs prim_defs envA_def divA_def docA_def viewA_def optsUndef_def optsA_def worldA_def)

text \<open>
  Claim C9, as amended. For every call that reaches the teardown (the renderer has
  answered with a canvas), the call returns that canvas, and the destruction of its
  hosting frame is requested exactly when the merged \<^verbatim>\<open>removeContainer\<close> is
  \<^verbatim>\<open>true\<close>: the option is absent, or is \<^verbatim>\<open>true\<close>. An explicit \<^verbatim>\<open>false\<close>,
  \<^verbatim>\<open>null\<close> or \<^verbatim>\<open>undefined\<close> leaves the frame alone. When the destruction is
  requested and the frame is no longer attached, one error-level log entry is written,
  and nothing else changes: the call still returns its canvas.
\<close>

theorem frame_destroyed_iff_removeContainer_true:
  assumes "ownerDocument element = Some doc" and "defaultView doc = Some view"
    and "rendererAnswers env (callTrace w (snd (renderElement env element opts w))) = [Inr canvas]"
  shows "fst (renderElement env element opts w) = Inr canvas \<and>
         (\<exists>c. containerOf env element doc view opts w = Some c \<and>
            destroyCalls (callTrace w (snd (renderElement env element opts w))) =
              (if o_removeContainer opts = None \<or> o_removeContainer opts = Some (JVal True)
               then [c] else []) \<and>
            filter isLogError (callTrace w (snd (renderElement env element opts w))) =
              (if (o_removeContainer opts = None \<or> o_removeContainer opts = Some (JVal True)) \<and>
                  \<not> attached (frames (snd (duplicated env element doc view opts w)) c)
               then [LogError (instanceName env) ''Cannot detach cloned iframe as it is not in the DOM anymore'']
               else []))"
  using assms(1,2)
proof (cases rule: call_cases [where env = env and opts = opts and w = w])
  case (CallFailed err)
  with assms(3) show ?thesis by simp
next
  case (CallCompleted ce c canvas')
  from CallCompleted(4) assms(3) have canvas: "canvas' = canvas" by simp
  have c: "containerOf env element doc view opts w = Some c"
    by (simp add: containerOf_def CallCompleted(2))
  have d: "destroyCalls (callTrace w (snd (renderElement env element opts w))) =
      (if o_removeContainer opts = None \<or> o_removeContainer opts = Some (JVal True) then [c] else [])"
    unfolding CallCompleted(3)
    by (simp add: callTrace_def removeContainer_true_iff split: option.splits)
  have e: "filter isLogError (callTrace w (snd (renderElement env element opts w))) =
      (if (o_removeContainer opts = None \<or> o_removeContainer opts = Some (JVal True)) \<and>
                  \<not> attached (frames (snd (duplicated env element doc view opts w)) c)
       then [LogError (instanceName env) ''Cannot detach cloned iframe as it is not in the DOM anymore'']
       else [])"
    unfolding CallCompleted(3)
    by (simp add: callTrace_def removeContainer_true_iff del: duplicated_fields(5) split: option.splits)
  from CallCompleted(1) canvas c d e show ?thesis by simp
qed

theorem frame_destroyed_witness:
  "ownerDocument divA = Some docA \<and> defaultView docA = Some viewA \<and>
   rendererAnswers envDetached (callTrace worldA (snd (renderElement envDetached divA optsA worldA))) = [Inr 501] \<and>
   fst (renderElement envDetached divA optsA worldA) = Inr 501 \<and>
   destroyCalls (callTrace worldA (snd (renderElement envDetached divA optsA worldA))) = [7] \<and>
   filter isLogError (callTrace worldA (snd (renderElement envDetached divA optsA worldA))) =
     [LogError (instanceName envDetached) ''Cannot detach cloned iframe as it is not in the DOM anymore'']"
proof -
  have h: "ownerDocument divA = Some docA" "defaultView docA = Some viewA"
    by (simp_all add: divA_def docA_def)
  have a: "rendererAnswers envDetached (callTrace worldA (snd (renderElement envDetached divA optsA worldA))) = [Inr 501]"
    by (simp add: run_defs prim_defs envDetached_def envA_def divA_def docA_def viewA_def optsA_def worldA_def)
  have c: "containerOf envDetached divA docA viewA optsA worldA = Some 7"
    by (simp add: containerOf_def duplicated_def duplicate_def fullClone_def Let_def callOptions_def
        mergeOptions_def spread_def optsA_def envDetached_def)
  have f: "\<not> attached (frames (snd (duplicated envDetached divA docA viewA optsA worldA)) 7)"
    by (simp add: fastPathQualifies_def supplied_def optsA_def envDetached_def)
  have o: "o_removeContainer optsA = None"
    by (simp add: optsA_def)
  show ?thesis
    using frame_destroyed_iff_removeContainer_true [OF h a] h a c f o
    by auto
qed

text \<open>
  Claim C5 fails as stated. Lines 199-203 do not tell a borrowed frame from a new one: a
  fast-path call that leaves \<^verbatim>\<open>removeContainer\<close> out destroys the frame it took from the
  named-frame cache.
\<close>

theorem borrowed_frame_destroyed_by_default:
  "fastPathAttempted (callTrace worldB (snd (renderElement envA divA optsFast worldB))) \<and>
   iframeStorage worldB ''panel'' = Some 5 \<and>
   attached (frames worldB 5) \<and>
   fst (renderElement envA divA optsFast worldB) = Inr 501 \<and>
   destroyCalls (callTrace worldB (snd (renderElement envA divA optsFast worldB))) = [5] \<and>
   \<not> attached (frames (snd (renderElement envA divA optsFast worldB)) 5)"
  by (simp add: run_defs prim_defs fastPathAttempted_def envA_def divA_def docA_def viewA_def
      optsFast_def optsA_def worldB_def worldA_def)

text \<open>
  Claim C5, as amended. For every call that takes the fast path, the destruction of the
  borrowed frame is requested exactly when the call returns a canvas and the merged
  \<^verbatim>\<open>removeContainer\<close> is \<^verbatim>\<open>true\<close> (the option is absent, or is \<^verbatim>\<open>true\<close>), and then
  the frame is detached; in every other case (an explicit \<^verbatim>\<open>false\<close>, \<^verbatim>\<open>null\<close> or
  \<^verbatim>\<open>undefined\<close>, or a call that fails before the teardown) no destruction is requested
  and all frames are as they were.
\<close>

theorem borrowed_frame_destroyed_iff:
  assumes "ownerDocument element = Some doc" and "defaultView doc = Some view"
    and "fastPathQualifies opts w"
    and "iframeStorage w (string_of (prop_get (o_renderName opts))) = Some f"
  shows "destroyCalls (callTrace w (snd (renderElement env element opts w))) =
           (if (\<exists>canvas. fst (renderElement env element opts w) = Inr canvas) \<and>
               (o_removeContainer opts = None \<or> o_removeContainer opts = Some (JVal True))
            then [f] else []) \<and>
         frames (snd (renderElement env element opts w)) =
           (if (\<exists>canvas. fst (renderElement env element opts w) = Inr canvas) \<and>
               (o_removeContainer opts = None \<or> o_removeContainer opts = Some (JVal True))
            then (frames w)(f := (frames w f)\<lparr>attached := False\<rparr>) else frames w)"
  using assms(1,2)
proof (cases rule: call_cases [where env = env and opts = opts and w = w])
  case (CallFailed err)
  then show ?thesis using assms(3) by simp
next
  case (CallCompleted ce c canvas)
  from duplicated_container [OF CallCompleted(2)] assms(3,4) have c: "c = f" by simp
  show ?thesis
    unfolding CallCompleted(3)
    using assms(3,4) CallCompleted(1) c
    by (simp add: callTrace_def removeContainer_true_iff)
qed

theorem borrowed_frame_witness:
  "ownerDocument divA = Some docA \<and> defaultView docA = Some viewA \<and>
   fastPathQualifies (optsFast\<lparr>o_removeContainer := Some (JVal False)\<rparr>) worldB \<and>
   iframeStorage worldB (string_of (prop_get (o_renderName (optsFast\<lparr>o_removeContainer := Some (JVal False)\<rparr>)))) = Some 5 \<and>
   destroyCalls (callTrace worldB
      (snd (renderElement envA divA (optsFast\<lparr>o_removeContainer := Some (JVal False)\<rparr>) worldB))) = [] \<and>
   frames (snd (renderElement envA divA (optsFast\<lparr>o_removeContainer := Some (JVal False)\<rparr>) worldB)) = frames worldB"
proof -
  have h: "ownerDocument divA = Some docA" "defaultView docA = Some viewA"
    "fastPathQualifies (optsFast\<lparr>o_removeContainer := Some (JVal False)\<rparr>) worldB"
    "iframeStorage worldB (string_of (prop_get (o_renderName (optsFast\<lparr>o_removeContainer := Some (JVal False)\<rparr>)))) = Some 5"
    by (simp_all add: divA_def docA_def fastPathQualifies_def optsFast_def optsA_def worldB_def worldA_def)
  show ?thesis
    using borrowed_frame_destroyed_iff [OF h, of envA] h
    by simp
qed

text \<open>
  Claim C6. For every call with a render name supplied (a non-empty string) that returns
  its canvas, the named-frame cache afterwards maps that name to the call's hosting frame
  (the cached frame on the fast path, the frame \<^verbatim>\<open>toIFrame\<close> answered with otherwise),
  whatever \<^verbatim>\<open>removeContainer\<close> is; and when the destruction is requested too, the
  request comes before the save.
\<close>

theorem render_name_persisted:
  assumes "ownerDocument element = Some doc" and "defaultView doc = Some view"
    and "o_renderName opts = Some (JVal name)" and "name \<noteq> []"
    and "fst (renderElement env element opts w) = Inr canvas"
  shows "\<exists>c. containerOf env element doc view opts w = Some c \<and>
           iframeStorage (snd (renderElement env element opts w)) name = Some c \<and>
           filter isFrameDisposal (callTrace w (snd (renderElement env element opts w))) =
             (if o_removeContainer opts = None \<or> o_removeContainer opts = Some (JVal True)
              then [DestroyFrame c] else []) @ [SaveIframe name c] \<and>
           (if fastPathQualifies opts w then iframeStorage w name = Some c
            else (\<exists>fr. toIFrame env (mkWindowBounds (callOptions env element doc view opts)) = Inr (c, fr)))"
  using assms(1,2)
proof (cases rule: call_cases [where env = env and opts = opts and w = w])
  case (CallFailed err)
  with assms(5) show ?thesis by simp
next
  case (CallCompleted ce c canvas')
  have c: "containerOf env element doc view opts w = Some c"
    by (simp add: containerOf_def CallCompleted(2))
  have s: "iframeStorage (snd (renderElement env element opts w)) name = Some c"
    unfolding CallCompleted(3) using assms(3,4) by simp
  have d: "filter isFrameDisposal (callTrace w (snd (renderElement env element opts w))) =
             (if o_removeContainer opts = None \<or> o_removeContainer opts = Some (JVal True)
              then [DestroyFrame c] else []) @ [SaveIframe name c]"
    unfolding CallCompleted(3) using assms(3,4)
    by (simp add: callTrace_def removeContainer_true_iff split: option.splits)
  from duplicated_container [OF CallCompleted(2)] assms(3) c s d show ?thesis
    by (simp split: if_splits)
qed

theorem render_name_persisted_witness:
  "ownerDocument divA = Some docA \<and> defaultView docA = Some viewA \<and>
   o_renderName optsFast = Some (JVal ''panel'') \<and>
   fst (renderElement envA divA optsFast worldA) = Inr 501 \<and>
   iframeStorage worldA ''panel'' = None \<and>
   iframeStorage (snd (renderElement envA divA optsFast worldA)) ''panel'' = Some 7 \<and>
   filter isFrameDisposal (callTrace worldA (snd (renderElement envA divA optsFast worldA))) =
     [DestroyFrame 7, SaveIframe ''panel'' 7]"
proof -
  have h: "ownerDocument divA = Some docA" "defaultView docA = Some viewA"
    "o_renderName optsFast = Some (JVal ''panel'')" "''panel'' \<noteq> []"
    by (simp_all add: divA_def docA_def optsFast_def)
  have r: "fst (renderElement envA divA optsFast worldA) = Inr 501"
    by (simp add: run_defs prim_defs envA_def divA_def docA_def viewA_def optsFast_def optsA_def worldA_def)
  have c: "containerOf envA divA docA viewA optsFast worldA = Some 7"
    by (simp add: containerOf_def duplicated_def duplicate_def fullClone_def Let_def callOptions_def
        mergeOptions_def spread_def optsFast_def optsA_def envA_def started_def defaultCache_def
        prop_get_def prim_defs worldA_def)
  have o: "o_removeContainer optsFast = None" "iframeStorage worldA ''panel'' = None"
    by (simp_all add: optsFast_def optsA_def worldA_def)
  show ?thesis
    using render_name_persisted [OF h r] h r c o
    by auto
qed

text \<open>
  Claim C8 does not hold of the code. The logger and the resource cache are released at
  lines 211-212 only, which a failing call never reaches: when the fast cloner answers
  with the failure sentinel, the call ends at line 115 with both entries still registered
  under its run identity. (A call that returns its canvas releases both:
  \<open>completed_call_releases_instance\<close>.)
\<close>

theorem instance_state_leaks_when_fast_clone_fails:
  "fst (renderElement envFail divA optsFast worldB) = Inl FastCloneError \<and>
   loggers worldB (instanceName envFail) = None \<and>
   caches worldB (instanceName envFail) = None \<and>
   loggers (snd (renderElement envFail divA optsFast worldB)) (instanceName envFail) = Some (JVal True) \<and>
   caches (snd (renderElement envFail divA optsFast worldB)) (instanceName envFail) \<noteq> None"
  by (simp add: run_defs prim_defs envFail_def envA_def divA_def docA_def viewA_def
      optsFast_def optsA_def worldB_def worldA_def)

end
